theory Spec2Isabelle
  imports Main "HOL-Library.Word" "HOL-Library.Char_ord" "HOL-Library.List_Lexorder"
begin

unbundle bit_operations_syntax

section \<open>Data model of sequenceInterval.ts\<close>

text \<open>
  This theory embeds the sequence-interval module of the sequence package: the TypeScript
  source that defines \<open>SequenceIntervalClass\<close>, \<open>getSerializedProperties\<close>,
  \<open>createPositionReferenceFromSegoff\<close>, \<open>createPositionReference\<close> and
  \<open>createSequenceInterval\<close>. What the module imports from the merge-tree package, from
  \<open>intervalUtils\<close>, from \<open>intervalCollection\<close> and from the \<open>uuid\<close> library is not
  embedded: those collaborators are fields of the record \<open>Env\<close> below, so that every
  theorem holds for any implementation of them, or small definitions marked as modelled.
\<close>

datatype Side = Before | After

datatype SlidingPreference = BACKWARD | FORWARD

datatype IntervalType =
  IntervalType_Simple | IntervalType_Nest | IntervalType_SlideOnRemove | IntervalType_Transient

datatype IntervalStickiness =
  Stickiness_NONE | Stickiness_END | Stickiness_START | Stickiness_FULL

text \<open>The string literals \<open>"start"\<close> and \<open>"end"\<close> of the source.\<close>

datatype Endpoint = Start | End

text \<open>\<open>number | "start" | "end"\<close>: a position. Numbers are integer valued.\<close>

datatype Place = Num int | Sentinel Endpoint

text \<open>
  \<open>SequencePlace = number | "start" | "end" | { pos, side }\<close> (the type is declared in
  merge-tree).
\<close>

datatype SequencePlace = Plain Place | Interior int Side

text \<open>
  A segment of the merge tree. The module reads one field of it, \<open>endpointType\<close>, which
  is \<open>"start"\<close> or \<open>"end"\<close> on the two special endpoint segments and undefined on
  every ordinary segment (identified here by a number).
\<close>

datatype ISegment = EndpointSegment Endpoint | ContentSegment nat

fun endpointType :: "ISegment \<Rightarrow> Endpoint option" where
  "endpointType (EndpointSegment e) = Some e"
| "endpointType (ContentSegment n) = None"

text \<open>
  JSON-like property values. A \<open>PropertySet\<close> is a map from keys to values; a key that
  reads as \<open>undefined\<close> in JavaScript (absent, or present and set to \<open>undefined\<close>)
  is \<open>None\<close>.
\<close>

datatype JsValue = JNull | JBool bool | JNum int | JStr string | JArr "JsValue list"

type_synonym PropertySet = "string \<Rightarrow> JsValue option"

definition createMap :: PropertySet where
  "createMap = (\<lambda>k. None)"

type_synonym ReferenceType = "32 word"

text \<open>
  Modelled from the spec: the enum \<open>ReferenceType\<close> is declared in merge-tree, not in this
  module. The spec describes it as a bitset over RangeBegin, RangeEnd,
  SlideOnRemove, StayOnRemove and Transient with named constants; the five flags are
  distinct single bits (the values are the ones of merge-tree's declaration).
\<close>

definition ReferenceType_RangeBegin :: ReferenceType where
  "ReferenceType_RangeBegin = 0x10"

definition ReferenceType_RangeEnd :: ReferenceType where
  "ReferenceType_RangeEnd = 0x20"

definition ReferenceType_SlideOnRemove :: ReferenceType where
  "ReferenceType_SlideOnRemove = 0x40"

definition ReferenceType_StayOnRemove :: ReferenceType where
  "ReferenceType_StayOnRemove = 0x80"

definition ReferenceType_Transient :: ReferenceType where
  "ReferenceType_Transient = 0x100"

text \<open>
  Modelled from the spec: \<open>refTypeIncludesFlag\<close> is a merge-tree helper; the spec's
  "refType includes Transient" is the test that the flag's bit is set.
\<close>

definition refTypeIncludesFlag :: "ReferenceType \<Rightarrow> ReferenceType \<Rightarrow> bool" where
  "refTypeIncludesFlag refType flags = (refType AND flags \<noteq> 0)"

text \<open>
  A local reference position (PR). It is a mutable object of the merge tree; the module
  reads \<open>getSegment()\<close>, \<open>refType\<close> and \<open>properties\<close> and compares PRs by object
  identity, so PRs live in a store and intervals hold their addresses.
\<close>

record LocalReferencePosition =
  segment :: "ISegment option"
  offset :: int
  refType :: ReferenceType
  slidingPreference :: "SlidingPreference option"
  canSlideToEndpoint :: "bool option"
  refProperties :: "PropertySet option"

type_synonym ref = nat

text \<open>
  The store: the PR objects allocated so far (addresses below \<open>nextRef\<close>) and the number
  of identifiers already drawn from \<open>uuid()\<close>.
\<close>

record Store =
  refs :: "ref \<Rightarrow> LocalReferencePosition"
  nextRef :: ref
  uuidCount :: nat

record ISequencedDocumentMessage =
  referenceSequenceNumber :: int
  clientId :: string
  sequenceNumber :: int
  minimumSequenceNumber :: int

text \<open>
  What \<open>getContainingSegment\<close> returns and \<open>createPositionReferenceFromSegoff\<close> takes:
  \<open>undefined\<close>, \<open>"start"\<close>/\<open>"end"\<close>, or an object \<open>{segment, offset}\<close> whose
  segment may itself be undefined.
\<close>

datatype Segoff =
  SegoffUndefined | SegoffEndpoint Endpoint | SegoffObject "ISegment option" int

text \<open>
  Modelled from the spec: \<open>PropertiesManager\<close> is a class of merge-tree. The spec has it
  track the pending keys of property changes, keyed by sequence number; its state is the
  list of those keys with their sequence numbers, and a new manager has none. What its
  methods do with that state is left to the collaborators below.
\<close>

type_synonym PropertiesManager = "(string \<times> int) list"

definition newPropertiesManager :: PropertiesManager where
  "newPropertiesManager = []"

text \<open>
  The collaborators of the module: the merge-tree client and helpers, the stickiness
  helpers, and the \<open>uuid\<close> library (\<open>uuid env n\<close> is the \<open>n\<close>-th identifier the
  generator hands out). \<open>collaborating\<close> is \<open>client.getCollabWindow().collaborating\<close>;
  \<open>handleProperties\<close> takes the manager, the props, the current property map and the
  four remaining arguments of the manager's method and returns the new property map, the
  new manager and the deltas; \<open>managerAck\<close> is the manager's method \<open>ack\<close>.
\<close>

record Env =
  getContainingSegment :: "int \<Rightarrow> (int \<times> string) option \<Rightarrow> int option \<Rightarrow> Segoff"
  getSlideToSegoff :: "Segoff \<Rightarrow> SlidingPreference option \<Rightarrow> bool \<Rightarrow> Segoff"
  localReferencePositionToPosition :: "LocalReferencePosition \<Rightarrow> int"
  getCurrentSeq :: int
  compareReferencePositions :: "LocalReferencePosition \<Rightarrow> LocalReferencePosition \<Rightarrow> int"
  minReferencePosition :: "(ref \<Rightarrow> LocalReferencePosition) \<Rightarrow> ref \<Rightarrow> ref \<Rightarrow> ref"
  maxReferencePosition :: "(ref \<Rightarrow> LocalReferencePosition) \<Rightarrow> ref \<Rightarrow> ref \<Rightarrow> ref"
  computeStickinessFromSide ::
    "Place option \<Rightarrow> Side \<Rightarrow> Place option \<Rightarrow> Side \<Rightarrow> IntervalStickiness"
  startReferenceSlidingPreference :: "IntervalStickiness \<Rightarrow> SlidingPreference"
  endReferenceSlidingPreference :: "IntervalStickiness \<Rightarrow> SlidingPreference"
  addProperties :: "PropertySet \<Rightarrow> PropertySet \<Rightarrow> PropertySet"
  uuid :: "nat \<Rightarrow> string"
  collaborating :: bool
  unassignedSequenceNumber :: int
  universalSequenceNumber :: int
  handleProperties ::
    "PropertiesManager \<Rightarrow> PropertySet \<Rightarrow> PropertySet \<Rightarrow> int \<Rightarrow> int \<Rightarrow> bool \<Rightarrow> bool option \<Rightarrow>
     PropertySet \<times> PropertiesManager \<times> PropertySet option"
  managerAck :: "PropertiesManager \<Rightarrow> int \<Rightarrow> int \<Rightarrow> PropertySet \<Rightarrow> PropertiesManager"

text \<open>
  The interval object. \<open>startLref\<close> and \<open>endLref\<close> are the fields \<open>start\<close> and
  \<open>end\<close> of the class (addresses of PR objects); \<open>intervalId\<close> is the private field
  \<open>id\<close>, \<open>properties\<close> the map held in \<open>#props.properties\<close> and
  \<open>propertyManager\<close> the optional manager held in \<open>#props.propertyManager\<close>.
\<close>

record SequenceIntervalClass =
  intervalId :: string
  label :: string
  startLref :: ref
  endLref :: ref
  intervalType :: IntervalType
  properties :: PropertySet
  propertyManager :: "PropertiesManager option"
  startSide :: Side
  endSide :: Side

record SerializedIntervalDelta =
  s_end :: "Place option"
  s_intervalType :: IntervalType
  s_sequenceNumber :: int
  s_start :: "Place option"
  s_stickiness :: IntervalStickiness
  s_startSide :: "Side option"
  s_endSide :: "Side option"
  s_properties :: "PropertySet option"

record SerializedProperties =
  p_id :: JsValue
  p_labels :: "JsValue option"
  p_properties :: PropertySet

datatype error = UsageError string | AssertionError nat

section \<open>Sides\<close>

definition compareSides :: "Side \<Rightarrow> Side \<Rightarrow> int" where
  "compareSides sideA sideB =
     (if sideA = sideB then 0 else if sideA = Before then 1 else - 1)"

definition minSide :: "Side \<Rightarrow> Side \<Rightarrow> Side" where
  "minSide sideA sideB = (if sideA = After \<and> sideB = After then After else Before)"

definition maxSide :: "Side \<Rightarrow> Side \<Rightarrow> Side" where
  "maxSide sideA sideB = (if sideA = Before \<and> sideB = Before then Before else After)"

section \<open>Comparison and overlap\<close>

definition getIntervalId :: "SequenceIntervalClass \<Rightarrow> string" where
  "getIntervalId this = intervalId this"

definition compareStart :: "Env \<Rightarrow> Store \<Rightarrow> SequenceIntervalClass \<Rightarrow> SequenceIntervalClass \<Rightarrow> int" where
  "compareStart env st this b =
     (let dist = compareReferencePositions env (refs st (startLref this)) (refs st (startLref b))
      in if dist = 0 then compareSides (startSide this) (startSide b) else dist)"

definition compareEnd :: "Env \<Rightarrow> Store \<Rightarrow> SequenceIntervalClass \<Rightarrow> SequenceIntervalClass \<Rightarrow> int" where
  "compareEnd env st this b =
     (let dist = compareReferencePositions env (refs st (endLref this)) (refs st (endLref b))
      in if dist = 0 then compareSides (endSide b) (endSide this) else dist)"

text \<open>
  \<open>if (thisId)\<close> tests a string for truthiness: the empty string is the one falsy string.
  The greater-than and less-than operators on strings compare lexicographically by
  code unit.
\<close>

definition compare :: "Env \<Rightarrow> Store \<Rightarrow> SequenceIntervalClass \<Rightarrow> SequenceIntervalClass \<Rightarrow> int" where
  "compare env st this b =
     (let startResult = compareStart env st this b in
      if startResult = 0 then
        (let endResult = compareEnd env st this b in
         if endResult = 0 then
           (let thisId = getIntervalId this in
            if thisId \<noteq> [] then
              (let bId = getIntervalId b in
               if bId \<noteq> [] then
                 (if thisId > bId then 1 else if thisId < bId then - 1 else 0)
               else 0)
            else 0)
         else endResult)
      else startResult)"

definition overlaps :: "Env \<Rightarrow> Store \<Rightarrow> SequenceIntervalClass \<Rightarrow> SequenceIntervalClass \<Rightarrow> bool" where
  "overlaps env st this b =
     (compareReferencePositions env (refs st (startLref this)) (refs st (endLref b)) \<le> 0 \<and>
      compareReferencePositions env (refs st (endLref this)) (refs st (startLref b)) \<ge> 0)"

definition overlapsPos :: "Env \<Rightarrow> Store \<Rightarrow> SequenceIntervalClass \<Rightarrow> int \<Rightarrow> int \<Rightarrow> bool" where
  "overlapsPos env st this bstart bend =
     (let startPos = localReferencePositionToPosition env (refs st (startLref this));
          endPos = localReferencePositionToPosition env (refs st (endLref this))
      in endPos > bstart \<and> startPos < bend)"

section \<open>Reserved keys and legacy ids\<close>

definition reservedIntervalIdKey :: string where
  "reservedIntervalIdKey = ''intervalId''"

definition legacyIdPrefix :: string where
  "legacyIdPrefix = ''legacy''"

text \<open>
  Modelled from the spec: the constant \<open>reservedRangeLabelsKey\<close> is declared in merge-tree;
  the spec gives its value, the key \<open>"referenceRangeLabels"\<close>.
\<close>

definition reservedRangeLabelsKey :: string where
  "reservedRangeLabelsKey = ''referenceRangeLabels''"

text \<open>
  What a template literal prints for a position: an integer in decimal, the sentinels as
  they are, and \<open>undefined\<close> for a missing endpoint of a delta.
\<close>

fun showNat :: "nat \<Rightarrow> string" where
  "showNat n =
     (if n < 10 then [''0123456789'' ! n]
      else showNat (n div 10) @ [''0123456789'' ! (n mod 10)])"

declare showNat.simps [simp del]

definition showInt :: "int \<Rightarrow> string" where
  "showInt i = (if i < 0 then ''-'' @ showNat (nat (- i)) else showNat (nat i))"

fun showPlace :: "Place option \<Rightarrow> string" where
  "showPlace None = ''undefined''"
| "showPlace (Some (Num i)) = showInt i"
| "showPlace (Some (Sentinel Start)) = ''start''"
| "showPlace (Some (Sentinel End)) = ''end''"

definition getSerializedProperties :: "SerializedIntervalDelta \<Rightarrow> SerializedProperties" where
  "getSerializedProperties serializedInterval =
     (let props = (case s_properties serializedInterval of None \<Rightarrow> createMap | Some p \<Rightarrow> p);
          maybeId = props reservedIntervalIdKey;
          labels = props reservedRangeLabelsKey;
          rest = props(reservedIntervalIdKey := None, reservedRangeLabelsKey := None);
          legacy = JStr (legacyIdPrefix @ showPlace (s_start serializedInterval) @ ''-'' @
                         showPlace (s_end serializedInterval));
          theId = (case maybeId of None \<Rightarrow> legacy | Some JNull \<Rightarrow> legacy | Some v \<Rightarrow> v)
      in \<lparr>p_id = theId, p_labels = labels, p_properties = rest\<rparr>)"

section \<open>The interval class\<close>

text \<open>
  The constructor. \<open>if (props)\<close> holds for every object; the two sides default to
  \<open>Side.Before\<close>.
\<close>

definition newSequenceIntervalClass ::
  "Env \<Rightarrow> string \<Rightarrow> string \<Rightarrow> ref \<Rightarrow> ref \<Rightarrow> IntervalType \<Rightarrow> PropertySet option \<Rightarrow>
   Side option \<Rightarrow> Side option \<Rightarrow> SequenceIntervalClass" where
  "newSequenceIntervalClass env iid lbl startR endR itype props sSide eSide =
     \<lparr>intervalId = iid, label = lbl, startLref = startR, endLref = endR,
      intervalType = itype,
      properties = (case props of None \<Rightarrow> createMap
                    | Some p \<Rightarrow> addProperties env createMap p),
      propertyManager = None,
      startSide = (case sSide of None \<Rightarrow> Before | Some s \<Rightarrow> s),
      endSide = (case eSide of None \<Rightarrow> Before | Some s \<Rightarrow> s)\<rparr>"

definition segmentEndpointType :: "LocalReferencePosition \<Rightarrow> Endpoint option" where
  "segmentEndpointType r = (case segment r of None \<Rightarrow> None | Some s \<Rightarrow> endpointType s)"

definition stickiness :: "Env \<Rightarrow> Store \<Rightarrow> SequenceIntervalClass \<Rightarrow> IntervalStickiness" where
  "stickiness env st this =
     computeStickinessFromSide env
       (map_option Sentinel (segmentEndpointType (refs st (startLref this)))) (startSide this)
       (map_option Sentinel (segmentEndpointType (refs st (endLref this)))) (endSide this)"

definition serializeDelta ::
  "Env \<Rightarrow> Store \<Rightarrow> SequenceIntervalClass \<Rightarrow> PropertySet option \<Rightarrow> bool \<Rightarrow> SerializedIntervalDelta" where
  "serializeDelta env st this props includeEndpoints =
     (let startPosition =
            (if includeEndpoints then
               Some (case segmentEndpointType (refs st (startLref this)) of
                       Some e \<Rightarrow> Sentinel e
                     | None \<Rightarrow> Num (localReferencePositionToPosition env (refs st (startLref this))))
             else None);
          endPosition =
            (if includeEndpoints then
               Some (case segmentEndpointType (refs st (endLref this)) of
                       Some e \<Rightarrow> Sentinel e
                     | None \<Rightarrow> Num (localReferencePositionToPosition env (refs st (endLref this))))
             else None)
      in \<lparr>s_end = endPosition,
          s_intervalType = intervalType this,
          s_sequenceNumber = getCurrentSeq env,
          s_start = startPosition,
          s_stickiness = stickiness env st this,
          s_startSide = (if includeEndpoints then Some (startSide this) else None),
          s_endSide = (if includeEndpoints then Some (endSide this) else None),
          s_properties =
            Some ((case props of None \<Rightarrow> createMap | Some p \<Rightarrow> p)
                    (reservedIntervalIdKey \<mapsto> JStr (intervalId this),
                     reservedRangeLabelsKey \<mapsto> JArr [JStr (label this)]))\<rparr>)"

definition serialize :: "Env \<Rightarrow> Store \<Rightarrow> SequenceIntervalClass \<Rightarrow> SerializedIntervalDelta" where
  "serialize env st this = serializeDelta env st this (Some (properties this)) True"

definition clone :: "Env \<Rightarrow> SequenceIntervalClass \<Rightarrow> SequenceIntervalClass" where
  "clone env this =
     newSequenceIntervalClass env (intervalId this) (label this) (startLref this) (endLref this)
       (intervalType this) (Some (properties this)) (Some (startSide this)) (Some (endSide this))"

text \<open>
  \<open>changeProperties\<close> returns the deltas of the manager's \<open>handleProperties\<close>, which is
  handed \<open>#props\<close> and so may change both the property map and the manager; the props
  are passed on as the caller gave them.
\<close>

definition changeProperties ::
  "Env \<Rightarrow> SequenceIntervalClass \<Rightarrow> PropertySet option \<Rightarrow> ISequencedDocumentMessage option \<Rightarrow>
   bool option \<Rightarrow> SequenceIntervalClass \<times> PropertySet option" where
  "changeProperties env this props opmsg rollback =
     (case props of
        None \<Rightarrow> (this, None)
      | Some p \<Rightarrow>
          (let mgr = (case propertyManager this of None \<Rightarrow> newPropertiesManager | Some m \<Rightarrow> m);
               (newProperties, mgr', deltas) =
                 handleProperties env mgr p (properties this)
                   (if collaborating env
                    then (case opmsg of None \<Rightarrow> unassignedSequenceNumber env
                          | Some m \<Rightarrow> sequenceNumber m)
                    else universalSequenceNumber env)
                   (case opmsg of None \<Rightarrow> universalSequenceNumber env
                    | Some m \<Rightarrow> minimumSequenceNumber m)
                   (collaborating env) rollback
           in (this\<lparr>properties := newProperties, propertyManager := Some mgr'\<rparr>, deltas)))"

text \<open>
  \<open>ackPropertiesChange\<close> hands the manager the op's sequence numbers and the new props;
  the property map is not among the arguments.
\<close>

definition ackPropertiesChange ::
  "Env \<Rightarrow> SequenceIntervalClass \<Rightarrow> PropertySet \<Rightarrow> ISequencedDocumentMessage \<Rightarrow>
   SequenceIntervalClass" where
  "ackPropertiesChange env this newProps opmsg =
     (let mgr = (case propertyManager this of None \<Rightarrow> newPropertiesManager | Some m \<Rightarrow> m)
      in this\<lparr>propertyManager :=
                Some (managerAck env mgr (sequenceNumber opmsg) (minimumSequenceNumber opmsg)
                        newProps)\<rparr>)"

text \<open>\<open>uuid()\<close>: the next identifier of the generator.\<close>

definition uuid_v4 :: "Env \<Rightarrow> Store \<Rightarrow> string \<times> Store" where
  "uuid_v4 env st = (uuid env (uuidCount st), st\<lparr>uuidCount := Suc (uuidCount st)\<rparr>)"

definition union_interval ::
  "Env \<Rightarrow> Store \<Rightarrow> SequenceIntervalClass \<Rightarrow> SequenceIntervalClass \<Rightarrow> SequenceIntervalClass \<times> Store" where
  "union_interval env st this b =
     (let newStart = minReferencePosition env (refs st) (startLref this) (startLref b);
          newEnd = maxReferencePosition env (refs st) (endLref this) (endLref b);
          startSide' =
            (if startLref this = startLref b then minSide (startSide this) (startSide b)
             else if startLref this = newStart then startSide this else startSide b);
          endSide' =
            (if endLref this = endLref b then maxSide (endSide this) (endSide b)
             else if endLref this = newEnd then endSide this else endSide b);
          (newId, st') = uuid_v4 env st
      in (newSequenceIntervalClass env newId (label this) newStart newEnd (intervalType this)
            None (Some startSide') (Some endSide'), st'))"

section \<open>Creating position references\<close>

definition allocate :: "Store \<Rightarrow> LocalReferencePosition \<Rightarrow> ref \<times> Store" where
  "allocate st r =
     (nextRef st, st\<lparr>refs := (refs st)(nextRef st := r), nextRef := Suc (nextRef st)\<rparr>)"

text \<open>
  Modelled from the spec: \<open>client.createLocalReferencePosition\<close> is a method of the
  merge-tree client. The spec has it "create an attached PR at (segment, offset) with the
  given flags"; a sentinel is anchored to the endpoint segment of that name. The result is
  a new object.
\<close>

definition createLocalReferencePosition ::
  "Store \<Rightarrow> Endpoint + ISegment \<Rightarrow> int option \<Rightarrow> ReferenceType \<Rightarrow> PropertySet option \<Rightarrow>
   SlidingPreference option \<Rightarrow> bool option \<Rightarrow> ref \<times> Store" where
  "createLocalReferencePosition st segOrEndpoint off rt props sp cs =
     allocate st
       \<lparr>segment = Some (case segOrEndpoint of Inl e \<Rightarrow> EndpointSegment e | Inr sg \<Rightarrow> sg),
        offset = (case off of None \<Rightarrow> 0 | Some n \<Rightarrow> n),
        refType = rt, slidingPreference = sp, canSlideToEndpoint = cs,
        refProperties = props\<rparr>"

text \<open>
  Modelled from the spec: \<open>createDetachedLocalReferencePosition\<close> is a merge-tree helper;
  the spec has it return "a detached PR carrying (slidingPreference, refType) only".
\<close>

definition createDetachedLocalReferencePosition ::
  "Store \<Rightarrow> SlidingPreference option \<Rightarrow> ReferenceType \<Rightarrow> ref \<times> Store" where
  "createDetachedLocalReferencePosition st sp rt =
     allocate st
       \<lparr>segment = None, offset = 0, refType = rt, slidingPreference = sp,
        canSlideToEndpoint = None, refProperties = None\<rparr>"

text \<open>
  Modelled from the spec: the method \<open>addProperties\<close> of a PR belongs to merge-tree; it
  adds the given properties to the PR's own ("Attach {referenceRangeLabels:[label]} to each
  PR's properties").
\<close>

definition lref_addProperties :: "Env \<Rightarrow> Store \<Rightarrow> ref \<Rightarrow> PropertySet \<Rightarrow> Store" where
  "lref_addProperties env st r newProps =
     st\<lparr>refs := (refs st)(r := (refs st r)
           \<lparr>refProperties :=
              Some (addProperties env
                      (case refProperties (refs st r) of None \<Rightarrow> createMap | Some p \<Rightarrow> p)
                      newProps)\<rparr>)\<rparr>"

text \<open>
  Truthiness of the optional arguments: \<open>!localSeq\<close> holds for \<open>undefined\<close> and for
  \<open>0\<close>; \<open>!fromSnapshot\<close> and \<open>!rollback\<close> hold for \<open>undefined\<close> and \<open>false\<close>;
  a message object is always truthy.
\<close>

definition truthyNumber :: "int option \<Rightarrow> bool" where
  "truthyNumber n = (case n of None \<Rightarrow> False | Some v \<Rightarrow> v \<noteq> 0)"

definition truthyBoolean :: "bool option \<Rightarrow> bool" where
  "truthyBoolean b = (case b of None \<Rightarrow> False | Some v \<Rightarrow> v)"

definition createPositionReferenceFromSegoff ::
  "Store \<Rightarrow> Segoff \<Rightarrow> ReferenceType \<Rightarrow> ISequencedDocumentMessage option \<Rightarrow> int option \<Rightarrow>
   bool option \<Rightarrow> SlidingPreference option \<Rightarrow> bool option \<Rightarrow> bool option \<Rightarrow>
   error + (ref \<times> Store)" where
  "createPositionReferenceFromSegoff st segoff rt opmsg localSeq fromSnapshot sp cs rollback =
     (case segoff of
        SegoffEndpoint e \<Rightarrow> Inr (createLocalReferencePosition st (Inl e) None rt None sp cs)
      | SegoffObject (Some sg) off \<Rightarrow>
          Inr (createLocalReferencePosition st (Inr sg) (Some off) rt None sp cs)
      | _ \<Rightarrow>
          if opmsg = None \<and> \<not> truthyNumber localSeq \<and> \<not> truthyBoolean fromSnapshot \<and>
             \<not> refTypeIncludesFlag rt ReferenceType_Transient \<and> \<not> truthyBoolean rollback
          then Inl (UsageError ''Non-transient references need segment'')
          else Inr (createDetachedLocalReferencePosition st sp rt))"

definition createPositionReference ::
  "Env \<Rightarrow> Store \<Rightarrow> Place \<Rightarrow> ReferenceType \<Rightarrow> ISequencedDocumentMessage option \<Rightarrow> bool option \<Rightarrow>
   int option \<Rightarrow> SlidingPreference option \<Rightarrow> bool \<Rightarrow> bool \<Rightarrow> bool option \<Rightarrow>
   error + (ref \<times> Store)" where
  "createPositionReference env st pos rt opmsg fromSnapshot localSeq sp exclusive
       useNewSlidingBehavior rollback =
     (case opmsg of
        Some m \<Rightarrow>
          if \<not> (rt AND ReferenceType_SlideOnRemove \<noteq> 0) then Inl (AssertionError 0x2f5)
          else
            (let segoff =
                   (case pos of
                      Sentinel e \<Rightarrow> SegoffEndpoint e
                    | Num n \<Rightarrow>
                        getSlideToSegoff env
                          (getContainingSegment env n
                             (Some (referenceSequenceNumber m, clientId m)) None)
                          sp useNewSlidingBehavior)
             in createPositionReferenceFromSegoff st segoff rt opmsg localSeq fromSnapshot sp
                  (Some exclusive) rollback)
      | None \<Rightarrow>
          if \<not> (rt AND ReferenceType_SlideOnRemove = 0 \<or> truthyBoolean fromSnapshot)
          then Inl (AssertionError 0x2f6)
          else
            (let segoff =
                   (case pos of
                      Sentinel e \<Rightarrow> SegoffEndpoint e
                    | Num n \<Rightarrow> getContainingSegment env n None localSeq)
             in createPositionReferenceFromSegoff st segoff rt opmsg localSeq fromSnapshot sp
                  (Some exclusive) rollback))"

text \<open>
  Modelled from the spec: \<open>endpointPosAndSide\<close> is a merge-tree helper that normalises the
  two places into \<open>(startSide, endSide, startPos, endPos)\<close>: a plain position has side
  \<open>Before\<close>, an interior place gives its own position and side, and an undefined place gives
  an undefined position and side.
\<close>

definition placeSide :: "SequencePlace option \<Rightarrow> Side option" where
  "placeSide p = (case p of None \<Rightarrow> None | Some (Plain q) \<Rightarrow> Some Before
                  | Some (Interior n s) \<Rightarrow> Some s)"

definition placePos :: "SequencePlace option \<Rightarrow> Place option" where
  "placePos p = (case p of None \<Rightarrow> None | Some (Plain q) \<Rightarrow> Some q
                 | Some (Interior n s) \<Rightarrow> Some (Num n))"

definition endpointPosAndSide ::
  "SequencePlace option \<Rightarrow> SequencePlace option \<Rightarrow>
   Side option \<times> Side option \<times> Place option \<times> Place option" where
  "endpointPosAndSide startP endP = (placeSide startP, placeSide endP, placePos startP, placePos endP)"

section \<open>Creating intervals\<close>

text \<open>
  The choice of \<open>beginRefType\<close> and \<open>endRefType\<close> in \<open>createSequenceInterval\<close>: both
  start as \<open>RangeBegin\<close> and \<open>RangeEnd\<close>; a transient interval assigns \<open>Transient\<close> to
  both, any other interval ORs in \<open>SlideOnRemove\<close> when \<open>op ?? fromSnapshot\<close> is truthy
  and \<open>StayOnRemove\<close> otherwise.
\<close>

definition creationRefTypes ::
  "IntervalType \<Rightarrow> ISequencedDocumentMessage option \<Rightarrow> bool option \<Rightarrow>
   ReferenceType \<times> ReferenceType" where
  "creationRefTypes itype opmsg fromSnapshot =
     (if itype = IntervalType_Transient
      then (ReferenceType_Transient, ReferenceType_Transient)
      else if opmsg \<noteq> None \<or> truthyBoolean fromSnapshot
      then (ReferenceType_RangeBegin OR ReferenceType_SlideOnRemove,
            ReferenceType_RangeEnd OR ReferenceType_SlideOnRemove)
      else (ReferenceType_RangeBegin OR ReferenceType_StayOnRemove,
            ReferenceType_RangeEnd OR ReferenceType_StayOnRemove))"

definition createSequenceInterval ::
  "Env \<Rightarrow> Store \<Rightarrow> string \<Rightarrow> string \<Rightarrow> SequencePlace option \<Rightarrow> SequencePlace option \<Rightarrow>
   IntervalType \<Rightarrow> ISequencedDocumentMessage option \<Rightarrow> bool option \<Rightarrow> bool \<Rightarrow>
   PropertySet option \<Rightarrow> bool option \<Rightarrow> error + (SequenceIntervalClass \<times> Store)" where
  "createSequenceInterval env st lbl iid startP endP itype opmsg fromSnapshot
       useNewSlidingBehavior props rollback =
     (case endpointPosAndSide
             (Some (case startP of None \<Rightarrow> Plain (Sentinel Start) | Some p \<Rightarrow> p))
             (Some (case endP of None \<Rightarrow> Plain (Sentinel End) | Some p \<Rightarrow> p)) of
        (Some sSide, Some eSide, Some startPos, Some endPos) \<Rightarrow>
          (let stick = computeStickinessFromSide env (Some startPos) sSide (Some endPos) eSide;
               (beginRefType, endRefType) = creationRefTypes itype opmsg fromSnapshot
           in case createPositionReference env st startPos beginRefType opmsg fromSnapshot None
                     (Some (startReferenceSlidingPreference env stick))
                     (startReferenceSlidingPreference env stick = BACKWARD)
                     useNewSlidingBehavior rollback of
                Inl e \<Rightarrow> Inl e
              | Inr (startRef, st1) \<Rightarrow>
                  (case createPositionReference env st1 endPos endRefType opmsg fromSnapshot None
                          (Some (endReferenceSlidingPreference env stick))
                          (endReferenceSlidingPreference env stick = FORWARD)
                          useNewSlidingBehavior rollback of
                     Inl e \<Rightarrow> Inl e
                   | Inr (endRef, st2) \<Rightarrow>
                       (let rangeProp = createMap(reservedRangeLabelsKey \<mapsto> JArr [JStr lbl]);
                            st3 = lref_addProperties env st2 startRef rangeProp;
                            st4 = lref_addProperties env st3 endRef rangeProp
                        in Inr (newSequenceIntervalClass env iid lbl startRef endRef itype
                                  (map_option
                                     (\<lambda>p. p(reservedIntervalIdKey := None,
                                             reservedRangeLabelsKey := None)) props)
                                  (Some sSide) (Some eSide), st4))))
      | _ \<Rightarrow> Inl (AssertionError 0x794))"

definition createTransientInterval ::
  "Env \<Rightarrow> Store \<Rightarrow> SequencePlace option \<Rightarrow> SequencePlace option \<Rightarrow>
   error + (SequenceIntervalClass \<times> Store)" where
  "createTransientInterval env st startP endP =
     (let (newId, st') = uuid_v4 env st
      in createSequenceInterval env st' ''transient'' newId startP endP IntervalType_Transient
           None None False None None)"

section \<open>Modifying an interval\<close>

definition getRefType :: "ISequencedDocumentMessage option \<Rightarrow> ReferenceType \<Rightarrow> ReferenceType" where
  "getRefType opmsg baseType =
     (if opmsg = None
      then (baseType AND NOT ReferenceType_SlideOnRemove) OR ReferenceType_StayOnRemove
      else baseType)"

text \<open>
  Modelled from the spec: \<open>copyPropertiesAndManager\<close> is a merge-tree helper; the spec has
  \<open>modify\<close> copy "both the property map and its change manager to the new instance".
\<close>

definition copyPropertiesAndManager ::
  "SequenceIntervalClass \<Rightarrow> SequenceIntervalClass \<Rightarrow> SequenceIntervalClass" where
  "copyPropertiesAndManager source destination =
     destination\<lparr>properties := properties source, propertyManager := propertyManager source\<rparr>"

text \<open>
  One endpoint of \<open>modify\<close>: the old PR when no new position is given, else a new PR that
  takes over the old PR's properties.
\<close>

definition modifyEndpoint ::
  "Env \<Rightarrow> Store \<Rightarrow> ref \<Rightarrow> Place option \<Rightarrow> ISequencedDocumentMessage option \<Rightarrow> int option \<Rightarrow>
   SlidingPreference \<Rightarrow> bool \<Rightarrow> bool \<Rightarrow> error + (ref \<times> Store)" where
  "modifyEndpoint env st old newPos opmsg localSeq sp exclusive useNewSlidingBehavior =
     (case newPos of
        None \<Rightarrow> Inr (old, st)
      | Some p \<Rightarrow>
          (case createPositionReference env st p (getRefType opmsg (refType (refs st old)))
                  opmsg None localSeq (Some sp) exclusive useNewSlidingBehavior None of
             Inl e \<Rightarrow> Inl e
           | Inr (r, st1) \<Rightarrow>
               Inr (r, case refProperties (refs st1 old) of
                         None \<Rightarrow> st1
                       | Some ps \<Rightarrow> lref_addProperties env st1 r ps)))"

definition modify ::
  "Env \<Rightarrow> Store \<Rightarrow> SequenceIntervalClass \<Rightarrow> string \<Rightarrow> SequencePlace option \<Rightarrow>
   SequencePlace option \<Rightarrow> ISequencedDocumentMessage option \<Rightarrow> int option \<Rightarrow> bool \<Rightarrow>
   error + (SequenceIntervalClass \<times> Store)" where
  "modify env st this lbl startP endP opmsg localSeq useNewSlidingBehavior =
     (case endpointPosAndSide startP endP of
        (sSide, eSide, startPos, endPos) \<Rightarrow>
          (let stick =
                 computeStickinessFromSide env
                   (case startPos of Some p \<Rightarrow> Some p
                    | None \<Rightarrow> map_option Sentinel (segmentEndpointType (refs st (startLref this))))
                   (case sSide of Some s \<Rightarrow> s | None \<Rightarrow> startSide this)
                   (case endPos of Some p \<Rightarrow> Some p
                    | None \<Rightarrow> map_option Sentinel (segmentEndpointType (refs st (endLref this))))
                   (case eSide of Some s \<Rightarrow> s | None \<Rightarrow> endSide this)
           in case modifyEndpoint env st (startLref this) startPos opmsg localSeq
                     (startReferenceSlidingPreference env stick)
                     (startReferenceSlidingPreference env stick = BACKWARD)
                     useNewSlidingBehavior of
                Inl e \<Rightarrow> Inl e
              | Inr (startRef, st1) \<Rightarrow>
                  (case modifyEndpoint env st1 (endLref this) endPos opmsg localSeq
                          (endReferenceSlidingPreference env stick)
                          (endReferenceSlidingPreference env stick = FORWARD)
                          useNewSlidingBehavior of
                     Inl e \<Rightarrow> Inl e
                   | Inr (endRef, st2) \<Rightarrow>
                       Inr (copyPropertiesAndManager this
                              (newSequenceIntervalClass env (intervalId this) (label this)
                                 startRef endRef (intervalType this) None
                                 (Some (case sSide of Some s \<Rightarrow> s | None \<Rightarrow> startSide this))
                                 (Some (case eSide of Some s \<Rightarrow> s | None \<Rightarrow> endSide this))),
                            st2))))"

section \<open>A concrete client\<close>

text \<open>
  A small client on which the definitions can be run: the sequence \<open>hello world\<close> held in
  one segment of length 11. References are ordered by position (a detached reference
  before all others); on a tie \<open>minReferencePosition\<close> and \<open>maxReferencePosition\<close> return
  their second argument; \<open>null\<close> deletes a property; the identifier generator counts;
  the client is not collaborating, and the property manager applies a change at once and
  keeps no pending keys.
\<close>

definition position0 :: "LocalReferencePosition \<Rightarrow> int" where
  "position0 r =
     (case segment r of
        None \<Rightarrow> - 1
      | Some (EndpointSegment Start) \<Rightarrow> - 1
      | Some (EndpointSegment End) \<Rightarrow> 11
      | Some (ContentSegment n) \<Rightarrow> offset r)"

definition compareReferencePositions0 ::
  "LocalReferencePosition \<Rightarrow> LocalReferencePosition \<Rightarrow> int" where
  "compareReferencePositions0 a b = position0 a - position0 b"

definition computeStickinessFromSide0 ::
  "Place option \<Rightarrow> Side \<Rightarrow> Place option \<Rightarrow> Side \<Rightarrow> IntervalStickiness" where
  "computeStickinessFromSide0 startPos sSide endPos eSide =
     (let stickStart = (sSide = After \<or> startPos = Some (Sentinel Start));
          stickEnd = (eSide = Before \<or> endPos = Some (Sentinel End))
      in if stickStart then (if stickEnd then Stickiness_FULL else Stickiness_START)
         else (if stickEnd then Stickiness_END else Stickiness_NONE))"

definition addProperties0 :: "PropertySet \<Rightarrow> PropertySet \<Rightarrow> PropertySet" where
  "addProperties0 oldProps newProps =
     (\<lambda>k. case newProps k of None \<Rightarrow> oldProps k | Some JNull \<Rightarrow> None | Some v \<Rightarrow> Some v)"

definition env0 :: Env where
  "env0 =
     \<lparr>getContainingSegment =
        (\<lambda>n perspective localSeq.
           if 0 \<le> n \<and> n < 11 then SegoffObject (Some (ContentSegment 0)) n
           else SegoffObject None 0),
      getSlideToSegoff = (\<lambda>segoff sp useNewSlidingBehavior. segoff),
      localReferencePositionToPosition = position0,
      getCurrentSeq = 0,
      compareReferencePositions = compareReferencePositions0,
      minReferencePosition =
        (\<lambda>h a b. if compareReferencePositions0 (h a) (h b) < 0 then a else b),
      maxReferencePosition =
        (\<lambda>h a b. if compareReferencePositions0 (h a) (h b) > 0 then a else b),
      computeStickinessFromSide = computeStickinessFromSide0,
      startReferenceSlidingPreference =
        (\<lambda>s. if s = Stickiness_START \<or> s = Stickiness_FULL then BACKWARD else FORWARD),
      endReferenceSlidingPreference =
        (\<lambda>s. if s = Stickiness_END \<or> s = Stickiness_FULL then FORWARD else BACKWARD),
      addProperties = addProperties0,
      uuid = (\<lambda>n. ''uuid-'' @ showNat n),
      collaborating = False,
      unassignedSequenceNumber = - 1,
      universalSequenceNumber = 0,
      handleProperties =
        (\<lambda>mgr props oldProps seq msn collab rollback.
           (addProperties0 oldProps props, mgr, Some props)),
      managerAck = (\<lambda>mgr seq msn props. mgr)\<rparr>"

definition store0 :: Store where
  "store0 =
     \<lparr>refs = (\<lambda>a. \<lparr>segment = None, offset = 0, refType = 0, slidingPreference = None,
                    canSlideToEndpoint = None, refProperties = None\<rparr>),
      nextRef = 0, uuidCount = 0\<rparr>"

definition attachedRef :: "int \<Rightarrow> ReferenceType \<Rightarrow> LocalReferencePosition" where
  "attachedRef n rt =
     \<lparr>segment = Some (ContentSegment 0), offset = n, refType = rt,
      slidingPreference = Some FORWARD, canSlideToEndpoint = Some False,
      refProperties = None\<rparr>"

text \<open>
  A store with ten attached PRs, at the positions 0, 5, 3, 7, 4, 6, 4, 8, 5, 9 (PRs 4 and 6
  are two objects at the same position), and intervals over them.
\<close>

definition exampleStore :: Store where
  "exampleStore =
     \<lparr>refs = (\<lambda>a. if a < 10
                  then attachedRef ([0, 5, 3, 7, 4, 6, 4, 8, 5, 9] ! a)
                         (if even a
                          then ReferenceType_RangeBegin OR ReferenceType_StayOnRemove
                          else ReferenceType_RangeEnd OR ReferenceType_StayOnRemove)
                  else refs store0 a),
      nextRef = 10, uuidCount = 0\<rparr>"

definition exampleInterval ::
  "string \<Rightarrow> string \<Rightarrow> ref \<Rightarrow> Side \<Rightarrow> ref \<Rightarrow> Side \<Rightarrow> SequenceIntervalClass" where
  "exampleInterval iid lbl startR sSide endR eSide =
     \<lparr>intervalId = iid, label = lbl, startLref = startR, endLref = endR,
      intervalType = IntervalType_SlideOnRemove, properties = createMap,
      propertyManager = None, startSide = sSide, endSide = eSide\<rparr>"

definition intervalA :: SequenceIntervalClass where
  "intervalA = exampleInterval ''A'' ''x'' 0 Before 1 Before"

definition intervalB :: SequenceIntervalClass where
  "intervalB = exampleInterval ''B'' ''y'' 2 Before 3 Before"

definition intervalC :: SequenceIntervalClass where
  "intervalC = exampleInterval ''C'' ''x'' 4 Before 5 Before"

definition intervalD :: SequenceIntervalClass where
  "intervalD = exampleInterval ''D'' ''x'' 6 After 7 Before"

definition intervalE :: SequenceIntervalClass where
  "intervalE = exampleInterval ''E'' ''x'' 8 After 9 Before"

definition intervalF :: SequenceIntervalClass where
  "intervalF = exampleInterval ''F'' ''x'' 4 After 7 Before"

text \<open>An interval whose caller-given id is the string that the generator hands out first.\<close>

definition intervalG :: SequenceIntervalClass where
  "intervalG = exampleInterval ''uuid-0'' ''x'' 4 Before 5 Before"

definition exampleOp :: ISequencedDocumentMessage where
  "exampleOp = \<lparr>referenceSequenceNumber = 1, clientId = ''remote'', sequenceNumber = 2,
                 minimumSequenceNumber = 0\<rparr>"

section \<open>Notions used in the statements\<close>

text \<open>The refTypes of the two endpoint PRs of a created interval, if it was created.\<close>

definition endpointRefTypes ::
  "error + (SequenceIntervalClass \<times> Store) \<Rightarrow> (ReferenceType \<times> ReferenceType) option" where
  "endpointRefTypes r =
     (case r of
        Inl e \<Rightarrow> None
      | Inr (i, st) \<Rightarrow> Some (refType (refs st (startLref i)), refType (refs st (endLref i))))"

text \<open>
  A three-way comparator that presents a total preorder: \<open>c x y \<le> 0\<close> is the preorder,
  which is reflexive, total (the sign flips with the arguments) and transitive.
\<close>

definition comparatorTotalPreorder :: "('a \<Rightarrow> 'a \<Rightarrow> int) \<Rightarrow> bool" where
  "comparatorTotalPreorder c =
     ((\<forall>x. c x x = 0) \<and> (\<forall>x y. c x y = - c y x) \<and>
      (\<forall>x y z. c x y \<le> 0 \<and> c y z \<le> 0 \<longrightarrow> c x z \<le> 0))"

definition lexCompare :: "('a \<Rightarrow> 'a \<Rightarrow> int) \<Rightarrow> ('a \<Rightarrow> 'a \<Rightarrow> int) \<Rightarrow> 'a \<Rightarrow> 'a \<Rightarrow> int" where
  "lexCompare c d x y = (if c x y = 0 then d x y else c x y)"

definition compareIds :: "string \<Rightarrow> string \<Rightarrow> int" where
  "compareIds x y = (if x > y then 1 else if x < y then - 1 else 0)"

definition compareKeys :: "Env \<Rightarrow> Store \<Rightarrow> SequenceIntervalClass \<Rightarrow> SequenceIntervalClass \<Rightarrow> int" where
  "compareKeys env st =
     lexCompare (compareStart env st)
       (lexCompare (compareEnd env st) (\<lambda>a b. compareIds (intervalId a) (intervalId b)))"


text \<open>
  \<open>addProperties\<close> invents no key: a key that reads undefined in both maps reads
  undefined in the result.
\<close>

definition addsNoKeys :: "Env \<Rightarrow> bool" where
  "addsNoKeys env =
     (\<forall>oldProps newProps k.
        oldProps k = None \<and> newProps k = None \<longrightarrow> addProperties env oldProps newProps k = None)"

text \<open>
  The property manager invents no key either: a key that reads undefined in the props and
  in the current map reads undefined in the map it returns.
\<close>

definition handlesNoKeys :: "Env \<Rightarrow> bool" where
  "handlesNoKeys env =
     (\<forall>mgr props oldProps seq msn collab rollback k.
        props k = None \<and> oldProps k = None \<longrightarrow>
        fst (handleProperties env mgr props oldProps seq msn collab rollback) k = None)"

definition reservedFree :: "PropertySet \<Rightarrow> bool" where
  "reservedFree p = (p reservedIntervalIdKey = None \<and> p reservedRangeLabelsKey = None)"

text \<open>The segment that \<open>createPositionReferenceFromSegoff\<close> is given is undefined.\<close>

definition segmentUndefined :: "Segoff \<Rightarrow> bool" where
  "segmentUndefined segoff =
     (case segoff of SegoffUndefined \<Rightarrow> True | SegoffObject None off \<Rightarrow> True | _ \<Rightarrow> False)"

section \<open>Comparison is a total order (C5)\<close>

lemma ctp_reflD: "comparatorTotalPreorder c \<Longrightarrow> c x x = 0"
  unfolding comparatorTotalPreorder_def by blast

lemma ctp_negD: "comparatorTotalPreorder c \<Longrightarrow> c x y = - c y x"
  unfolding comparatorTotalPreorder_def by blast

lemma ctp_transD: "comparatorTotalPreorder c \<Longrightarrow> c x y \<le> 0 \<Longrightarrow> c y z \<le> 0 \<Longrightarrow> c x z \<le> 0"
  unfolding comparatorTotalPreorder_def by blast

lemma ctp_zero_split:
  assumes c: "comparatorTotalPreorder c"
    and xy: "c x y \<le> 0" and yz: "c y z \<le> 0" and xz: "c x z = 0"
  shows "c x y = 0 \<and> c y z = 0"
proof -
  have zx: "c z x \<le> 0" using ctp_negD [OF c, of z x] xz by simp
  have "c z y \<le> 0" using ctp_transD [OF c zx xy] .
  then have 1: "c y z = 0" using ctp_negD [OF c, of y z] yz by simp
  have "c y x \<le> 0" using ctp_transD [OF c yz zx] .
  then have 2: "c x y = 0" using ctp_negD [OF c, of x y] xy by simp
  show ?thesis using 1 2 by simp
qed

lemma ctp_lex:
  assumes c: "comparatorTotalPreorder c" and d: "comparatorTotalPreorder d"
  shows "comparatorTotalPreorder (lexCompare c d)"
  unfolding comparatorTotalPreorder_def
proof (intro conjI allI impI)
  fix x show "lexCompare c d x x = 0"
    by (simp add: lexCompare_def ctp_reflD [OF c] ctp_reflD [OF d])
next
  fix x y show "lexCompare c d x y = - lexCompare c d y x"
    using ctp_negD [OF c, of x y] ctp_negD [OF d, of x y] by (simp add: lexCompare_def)
next
  fix x y z
  assume h: "lexCompare c d x y \<le> 0 \<and> lexCompare c d y z \<le> 0"
  have xy: "c x y \<le> 0" using h by (auto simp: lexCompare_def split: if_splits)
  have yz: "c y z \<le> 0" using h by (auto simp: lexCompare_def split: if_splits)
  have xz: "c x z \<le> 0" using ctp_transD [OF c xy yz] .
  show "lexCompare c d x z \<le> 0"
  proof (cases "c x z = 0")
    case False
    then show ?thesis using xz by (simp add: lexCompare_def)
  next
    case True
    from ctp_zero_split [OF c xy yz True] have z: "c x y = 0" "c y z = 0" by simp_all
    then have "d x y \<le> 0" "d y z \<le> 0" using h by (simp_all add: lexCompare_def)
    then have "d x z \<le> 0" using ctp_transD [OF d] by blast
    then show ?thesis using True by (simp add: lexCompare_def)
  qed
qed

lemma ctp_comp: "comparatorTotalPreorder c \<Longrightarrow> comparatorTotalPreorder (\<lambda>x y. c (f x) (f y))"
  unfolding comparatorTotalPreorder_def by blast

lemma ctp_flip: "comparatorTotalPreorder c \<Longrightarrow> comparatorTotalPreorder (\<lambda>x y. c y x)"
  unfolding comparatorTotalPreorder_def by blast

lemma ctp_compareSides: "comparatorTotalPreorder compareSides"
  unfolding comparatorTotalPreorder_def
proof (intro conjI allI impI)
  fix x show "compareSides x x = 0" by (simp add: compareSides_def)
next
  fix x y show "compareSides x y = - compareSides y x"
    by (cases x; cases y) (simp_all add: compareSides_def)
next
  fix x y z assume "compareSides x y \<le> 0 \<and> compareSides y z \<le> 0"
  then show "compareSides x z \<le> 0"
    by (cases x; cases y; cases z) (simp_all add: compareSides_def)
qed

lemma ctp_compareIds: "comparatorTotalPreorder compareIds"
  unfolding comparatorTotalPreorder_def
proof (intro conjI allI impI)
  fix x :: string show "compareIds x x = 0" by (simp add: compareIds_def)
next
  fix x y :: string show "compareIds x y = - compareIds y x"
    by (auto simp: compareIds_def)
next
  fix x y z :: string assume "compareIds x y \<le> 0 \<and> compareIds y z \<le> 0"
  then have "x \<le> y" "y \<le> z" by (auto simp: compareIds_def split: if_splits)
  then have "x \<le> z" by simp
  then show "compareIds x z \<le> 0" by (auto simp: compareIds_def)
qed

lemma compareStart_lex:
  "compareStart env st =
     lexCompare (\<lambda>a b. compareReferencePositions env (refs st (startLref a)) (refs st (startLref b)))
                (\<lambda>a b. compareSides (startSide a) (startSide b))"
  by (intro ext) (simp add: compareStart_def lexCompare_def Let_def)

lemma compareEnd_lex:
  "compareEnd env st =
     lexCompare (\<lambda>a b. compareReferencePositions env (refs st (endLref a)) (refs st (endLref b)))
                (\<lambda>a b. compareSides (endSide b) (endSide a))"
  by (intro ext) (simp add: compareEnd_def lexCompare_def Let_def)

lemma ctp_compareStart:
  assumes "comparatorTotalPreorder (compareReferencePositions env)"
  shows "comparatorTotalPreorder (compareStart env st)"
  unfolding compareStart_lex
  by (intro ctp_lex ctp_comp [OF assms, of "\<lambda>a. refs st (startLref a)"]
        ctp_comp [OF ctp_compareSides, of startSide])

lemma ctp_compareEnd:
  assumes "comparatorTotalPreorder (compareReferencePositions env)"
  shows "comparatorTotalPreorder (compareEnd env st)"
  unfolding compareEnd_lex
  by (intro ctp_lex ctp_comp [OF assms, of "\<lambda>a. refs st (endLref a)"]
        ctp_comp [OF ctp_flip [OF ctp_compareSides], of endSide])

lemma ctp_compareKeys:
  assumes "comparatorTotalPreorder (compareReferencePositions env)"
  shows "comparatorTotalPreorder (compareKeys env st)"
  unfolding compareKeys_def
  by (intro ctp_lex ctp_compareStart [OF assms] ctp_compareEnd [OF assms]
        ctp_comp [OF ctp_compareIds, of intervalId])

lemma compare_compareKeys:
  "intervalId a \<noteq> [] \<Longrightarrow> intervalId b \<noteq> [] \<Longrightarrow> compare env st a b = compareKeys env st a b"
  by (simp add: compare_def compareKeys_def lexCompare_def compareIds_def getIntervalId_def Let_def)

lemma compare_neg:
  assumes "comparatorTotalPreorder (compareReferencePositions env)"
  shows "compare env st a b = - compare env st b a"
proof -
  have s: "compareStart env st a b = - compareStart env st b a"
    using ctp_negD [OF ctp_compareStart [OF assms]] .
  have e: "compareEnd env st a b = - compareEnd env st b a"
    using ctp_negD [OF ctp_compareEnd [OF assms]] .
  have i: "compareIds (intervalId a) (intervalId b) = - compareIds (intervalId b) (intervalId a)"
    using ctp_negD [OF ctp_compareIds] .
  show ?thesis using s e i
    by (auto simp: compare_def getIntervalId_def Let_def compareIds_def split: if_splits)
qed

text \<open>
  Claim C5. \<open>compare\<close> is lexicographic on \<open>(compareStart, compareEnd, id)\<close>, the ids
  compared as strings. When the reference comparator is a total preorder, \<open>compare\<close> of an
  interval with itself is 0, swapping the arguments negates the result, and on intervals
  with non-empty ids \<open>compare\<close> is transitive and is 0 only for equal keys.
\<close>

theorem compare_total_order:
  "comparatorTotalPreorder (compareReferencePositions env) \<Longrightarrow>
     compare env st a b =
       (if compareStart env st a b \<noteq> 0 then compareStart env st a b
        else if compareEnd env st a b \<noteq> 0 then compareEnd env st a b
        else if intervalId a = [] \<or> intervalId b = [] then 0
        else if intervalId a > intervalId b then 1
        else if intervalId a < intervalId b then - 1 else 0) \<and>
     compare env st a a = 0 \<and>
     compare env st a b = - compare env st b a \<and>
     (intervalId a \<noteq> [] \<and> intervalId b \<noteq> [] \<and> intervalId c \<noteq> [] \<and>
      compare env st a b \<le> 0 \<and> compare env st b c \<le> 0 \<longrightarrow> compare env st a c \<le> 0) \<and>
     (intervalId a \<noteq> [] \<and> intervalId b \<noteq> [] \<longrightarrow>
        (compare env st a b = 0 \<longleftrightarrow>
           compareStart env st a b = 0 \<and> compareEnd env st a b = 0 \<and> intervalId a = intervalId b))"
proof -
  assume tp: "comparatorTotalPreorder (compareReferencePositions env)"
  have lex: "compare env st a b =
       (if compareStart env st a b \<noteq> 0 then compareStart env st a b
        else if compareEnd env st a b \<noteq> 0 then compareEnd env st a b
        else if intervalId a = [] \<or> intervalId b = [] then 0
        else if intervalId a > intervalId b then 1
        else if intervalId a < intervalId b then - 1 else 0)"
    by (simp add: compare_def getIntervalId_def Let_def)
  have refl: "compare env st a a = 0"
    using ctp_reflD [OF ctp_compareStart [OF tp], of st a] ctp_reflD [OF ctp_compareEnd [OF tp], of st a]
    by (simp add: compare_def getIntervalId_def Let_def)
  have neg: "compare env st a b = - compare env st b a"
    using compare_neg [OF tp] .
  have trans: "intervalId a \<noteq> [] \<and> intervalId b \<noteq> [] \<and> intervalId c \<noteq> [] \<and>
      compare env st a b \<le> 0 \<and> compare env st b c \<le> 0 \<longrightarrow> compare env st a c \<le> 0"
  proof
    assume h: "intervalId a \<noteq> [] \<and> intervalId b \<noteq> [] \<and> intervalId c \<noteq> [] \<and>
      compare env st a b \<le> 0 \<and> compare env st b c \<le> 0"
    then have ab: "compareKeys env st a b \<le> 0" and bc: "compareKeys env st b c \<le> 0"
      using compare_compareKeys [of a b env st] compare_compareKeys [of b c env st] by simp_all
    have "compareKeys env st a c \<le> 0"
      using ctp_transD [OF ctp_compareKeys [OF tp] ab bc] .
    then show "compare env st a c \<le> 0"
      using h compare_compareKeys [of a c env st] by simp
  qed
  have zero: "intervalId a \<noteq> [] \<and> intervalId b \<noteq> [] \<longrightarrow>
        (compare env st a b = 0 \<longleftrightarrow>
           compareStart env st a b = 0 \<and> compareEnd env st a b = 0 \<and> intervalId a = intervalId b)"
    by (auto simp: compare_def getIntervalId_def Let_def)
  show ?thesis using lex refl neg trans zero by blast
qed


lemmas example_defs =
  exampleOp_def exampleStore_def exampleInterval_def intervalA_def intervalB_def intervalC_def intervalD_def
  intervalE_def intervalF_def intervalG_def attachedRef_def store0_def env0_def position0_def
  compareReferencePositions0_def

lemma ctp_env0: "comparatorTotalPreorder (compareReferencePositions env0)"
  by (simp add: comparatorTotalPreorder_def env0_def compareReferencePositions0_def)

theorem compare_total_order_witness:
  "comparatorTotalPreorder (compareReferencePositions env0) \<and>
   intervalId intervalA \<noteq> [] \<and> intervalId intervalB \<noteq> [] \<and> intervalId intervalC \<noteq> [] \<and>
   compare env0 exampleStore intervalA intervalB \<le> 0 \<and>
   compare env0 exampleStore intervalB intervalC \<le> 0 \<and>
   compare env0 exampleStore intervalA intervalC \<le> 0 \<and>
   compare env0 exampleStore intervalA intervalA = 0 \<and>
   compare env0 exampleStore intervalA intervalB = - compare env0 exampleStore intervalB intervalA"
proof -
  have ids: "intervalId intervalA \<noteq> [] \<and> intervalId intervalB \<noteq> [] \<and> intervalId intervalC \<noteq> []"
    by (simp add: example_defs)
  have ab: "compare env0 exampleStore intervalA intervalB \<le> 0"
    by (simp add: compare_def compareStart_def example_defs)
  have bc: "compare env0 exampleStore intervalB intervalC \<le> 0"
    by (simp add: compare_def compareStart_def example_defs)
  show ?thesis
    using compare_total_order [OF ctp_env0, of exampleStore intervalA intervalB intervalC]
      ctp_env0 ids ab bc by blast
qed

section \<open>Overlap (C10)\<close>

text \<open>
  Claim C10. \<open>overlaps\<close> is decided by the reference comparison of the four endpoints
  alone: it holds exactly when \<open>this.start\<close> is not after \<open>b.end\<close> and \<open>this.end\<close> is
  not before \<open>b.start\<close>. The sides are not read, so an interval that ends with side
  \<open>Before\<close> at the position where the other starts with side \<open>After\<close> still overlaps it.
  \<open>overlapsPos\<close> uses the strict inequalities \<open>endPos > bstart\<close> and \<open>startPos < bend\<close>, and
  so is false when the interval ends exactly at \<open>bstart\<close>.
\<close>

theorem overlaps_ignores_sides:
  "overlaps env st a b =
     (compareReferencePositions env (refs st (startLref a)) (refs st (endLref b)) \<le> 0 \<and>
      compareReferencePositions env (refs st (endLref a)) (refs st (startLref b)) \<ge> 0) \<and>
   overlaps env st (a\<lparr>startSide := s1, endSide := s2\<rparr>) (b\<lparr>startSide := s3, endSide := s4\<rparr>) =
     overlaps env st a b \<and>
   (compareReferencePositions env (refs st (startLref a)) (refs st (endLref b)) \<le> 0 \<and>
    compareReferencePositions env (refs st (endLref a)) (refs st (startLref b)) = 0 \<longrightarrow>
      overlaps env st (a\<lparr>endSide := Before\<rparr>) (b\<lparr>startSide := After\<rparr>)) \<and>
   overlapsPos env st a bstart bend =
     (localReferencePositionToPosition env (refs st (endLref a)) > bstart \<and>
      localReferencePositionToPosition env (refs st (startLref a)) < bend) \<and>
   (localReferencePositionToPosition env (refs st (endLref a)) = bstart \<longrightarrow>
      \<not> overlapsPos env st a bstart bend)"
  by (simp add: overlaps_def overlapsPos_def Let_def)

theorem overlaps_ignores_sides_witness:
  "compareReferencePositions env0 (refs exampleStore (startLref intervalA))
     (refs exampleStore (endLref intervalE)) \<le> 0 \<and>
   compareReferencePositions env0 (refs exampleStore (endLref intervalA))
     (refs exampleStore (startLref intervalE)) = 0 \<and>
   endSide intervalA = Before \<and> startSide intervalE = After \<and>
   overlaps env0 exampleStore intervalA intervalE \<and>
   localReferencePositionToPosition env0 (refs exampleStore (endLref intervalA)) = 5 \<and>
   \<not> overlapsPos env0 exampleStore intervalA 5 9"
proof -
  have c1: "compareReferencePositions env0 (refs exampleStore (startLref intervalA))
     (refs exampleStore (endLref intervalE)) \<le> 0"
    by (simp add: example_defs)
  have c2: "compareReferencePositions env0 (refs exampleStore (endLref intervalA))
     (refs exampleStore (startLref intervalE)) = 0"
    by (simp add: example_defs)
  have sides: "intervalA\<lparr>endSide := Before\<rparr> = intervalA" "intervalE\<lparr>startSide := After\<rparr> = intervalE"
    "endSide intervalA = Before" "startSide intervalE = After"
    by (simp_all add: example_defs)
  have p: "localReferencePositionToPosition env0 (refs exampleStore (endLref intervalA)) = 5"
    by (simp add: example_defs)
  show ?thesis
    using overlaps_ignores_sides [of env0 exampleStore intervalA intervalE _ _ _ _ 5 9]
      c1 c2 sides p by simp
qed

section \<open>Serialization (C8, C4)\<close>

lemmas factory_defs =
  createSequenceInterval_def creationRefTypes_def endpointPosAndSide_def placeSide_def placePos_def
  createPositionReference_def createPositionReferenceFromSegoff_def
  createLocalReferencePosition_def createDetachedLocalReferencePosition_def allocate_def
  lref_addProperties_def newSequenceIntervalClass_def truthyBoolean_def truthyNumber_def
  refTypeIncludesFlag_def computeStickinessFromSide0_def segmentEndpointType_def
  ReferenceType_RangeBegin_def ReferenceType_RangeEnd_def ReferenceType_SlideOnRemove_def
  ReferenceType_StayOnRemove_def ReferenceType_Transient_def

lemmas key_defs = reservedIntervalIdKey_def reservedRangeLabelsKey_def legacyIdPrefix_def

text \<open>
  Claim C8. \<open>serialize()\<close> is \<open>serializeDelta\<close> with the interval's own properties and
  \<open>includeEndpoints = true\<close>: both endpoints and both sides are present, an endpoint on an
  ordinary segment is the client's numeric position of the PR, and the properties are the
  interval's properties with \<open>intervalId\<close> set to the id and \<open>referenceRangeLabels\<close> set to
  the one-element list of the label.
\<close>

theorem serialize_is_full_delta:
  "serialize env st i = serializeDelta env st i (Some (properties i)) True \<and>
   s_start (serialize env st i) =
     Some (case segmentEndpointType (refs st (startLref i)) of
             Some e \<Rightarrow> Sentinel e
           | None \<Rightarrow> Num (localReferencePositionToPosition env (refs st (startLref i)))) \<and>
   s_end (serialize env st i) =
     Some (case segmentEndpointType (refs st (endLref i)) of
             Some e \<Rightarrow> Sentinel e
           | None \<Rightarrow> Num (localReferencePositionToPosition env (refs st (endLref i)))) \<and>
   s_startSide (serialize env st i) = Some (startSide i) \<and>
   s_endSide (serialize env st i) = Some (endSide i) \<and>
   s_properties (serialize env st i) =
     Some ((properties i)(''intervalId'' \<mapsto> JStr (intervalId i),
                          ''referenceRangeLabels'' \<mapsto> JArr [JStr (label i)]))"
  by (simp add: serialize_def serializeDelta_def key_defs)

text \<open>
  The example of the claim: the interval with id \<open>abc\<close>, label \<open>hl\<close>, endpoints
  (2 After, 9 Before) and the property \<open>color = red\<close>, created on the concrete client.
\<close>

theorem serialize_is_full_delta_witness:
  "\<exists>i st. createSequenceInterval env0 store0 ''hl'' ''abc'' (Some (Interior 2 After))
             (Some (Plain (Num 9))) IntervalType_SlideOnRemove None None False
             (Some (createMap(''color'' \<mapsto> JStr ''red''))) None = Inr (i, st) \<and>
          s_start (serialize env0 st i) = Some (Num 2) \<and>
          s_startSide (serialize env0 st i) = Some After \<and>
          s_end (serialize env0 st i) = Some (Num 9) \<and>
          s_endSide (serialize env0 st i) = Some Before \<and>
          s_properties (serialize env0 st i) =
            Some (createMap(''color'' \<mapsto> JStr ''red'', ''intervalId'' \<mapsto> JStr ''abc'',
                            ''referenceRangeLabels'' \<mapsto> JArr [JStr ''hl'']))"
proof -
  have "\<exists>i st. createSequenceInterval env0 store0 ''hl'' ''abc'' (Some (Interior 2 After))
             (Some (Plain (Num 9))) IntervalType_SlideOnRemove None None False
             (Some (createMap(''color'' \<mapsto> JStr ''red''))) None = Inr (i, st) \<and>
          segmentEndpointType (refs st (startLref i)) = None \<and>
          segmentEndpointType (refs st (endLref i)) = None \<and>
          localReferencePositionToPosition env0 (refs st (startLref i)) = 2 \<and>
          localReferencePositionToPosition env0 (refs st (endLref i)) = 9 \<and>
          startSide i = After \<and> endSide i = Before \<and> intervalId i = ''abc'' \<and> label i = ''hl'' \<and>
          properties i = createMap(''color'' \<mapsto> JStr ''red'')"
    by (simp add: factory_defs key_defs env0_def store0_def position0_def addProperties0_def
        createMap_def Let_def fun_eq_iff)
  then obtain i st where
    c: "createSequenceInterval env0 store0 ''hl'' ''abc'' (Some (Interior 2 After))
             (Some (Plain (Num 9))) IntervalType_SlideOnRemove None None False
             (Some (createMap(''color'' \<mapsto> JStr ''red''))) None = Inr (i, st)"
    and f: "segmentEndpointType (refs st (startLref i)) = None"
      "segmentEndpointType (refs st (endLref i)) = None"
      "localReferencePositionToPosition env0 (refs st (startLref i)) = 2"
      "localReferencePositionToPosition env0 (refs st (endLref i)) = 9"
      "startSide i = After" "endSide i = Before" "intervalId i = ''abc''" "label i = ''hl''"
      "properties i = createMap(''color'' \<mapsto> JStr ''red'')"
    by blast
  show ?thesis
    using serialize_is_full_delta [of env0 st i] c f by auto
qed

text \<open>
  Claim C4. For a serialized record whose properties have no \<open>intervalId\<close>,
  \<open>getSerializedProperties\<close> makes the id \<open>legacy\<close> followed by the start, a dash and the
  end. The record \<open>{start: 3, end: 7, properties: {}}\<close> gets the id \<open>legacy3-7\<close>; its
  labels, however, are \<open>undefined\<close> (no default is applied to the missing key
  \<open>referenceRangeLabels\<close>), not the empty list.
\<close>

theorem getSerializedProperties_legacy_record:
  "getSerializedProperties
     \<lparr>s_end = Some (Num 7), s_intervalType = IntervalType_SlideOnRemove, s_sequenceNumber = 0,
      s_start = Some (Num 3), s_stickiness = Stickiness_END, s_startSide = None,
      s_endSide = None, s_properties = Some createMap\<rparr> =
   \<lparr>p_id = JStr ''legacy3-7'', p_labels = None, p_properties = createMap\<rparr>"
  by (simp add: getSerializedProperties_def key_defs createMap_def showInt_def showNat.simps
      Let_def fun_eq_iff)

lemma getSerializedProperties_no_id:
  "(case s_properties s of None \<Rightarrow> createMap | Some p \<Rightarrow> p) ''intervalId'' = None \<Longrightarrow>
   p_id (getSerializedProperties s) =
     JStr (''legacy'' @ showPlace (s_start s) @ ''-'' @ showPlace (s_end s))"
  by (simp add: getSerializedProperties_def key_defs Let_def)

lemma getSerializedProperties_labels:
  "p_labels (getSerializedProperties s) =
     (case s_properties s of None \<Rightarrow> createMap | Some p \<Rightarrow> p) ''referenceRangeLabels''"
  by (simp add: getSerializedProperties_def key_defs Let_def)

section \<open>Position references (C3)\<close>

text \<open>
  Claim C3, as the code has it. For a request whose segment is undefined,
  \<open>createPositionReferenceFromSegoff\<close> raises the usage error exactly when there is no
  op, \<open>localSeq\<close> is undefined or 0, the request is neither from a snapshot nor a rollback,
  and the refType does not include \<open>Transient\<close>. It raises no other error, and in every
  other case with an undefined segment it returns a new detached PR that carries the
  sliding preference and the refType and nothing else.
\<close>

theorem createPositionReferenceFromSegoff_usage_error:
  "(createPositionReferenceFromSegoff st segoff rt opmsg localSeq fromSnapshot sp cs rollback =
      Inl (UsageError ''Non-transient references need segment'')) =
     (segmentUndefined segoff \<and> opmsg = None \<and> (localSeq = None \<or> localSeq = Some 0) \<and>
      fromSnapshot \<noteq> Some True \<and> rollback \<noteq> Some True \<and> rt AND ReferenceType_Transient = 0) \<and>
   (\<forall>e. createPositionReferenceFromSegoff st segoff rt opmsg localSeq fromSnapshot sp cs rollback =
          Inl e \<longrightarrow> e = UsageError ''Non-transient references need segment'') \<and>
   (segmentUndefined segoff \<and>
    \<not> (opmsg = None \<and> (localSeq = None \<or> localSeq = Some 0) \<and>
       fromSnapshot \<noteq> Some True \<and> rollback \<noteq> Some True \<and> rt AND ReferenceType_Transient = 0) \<longrightarrow>
      createPositionReferenceFromSegoff st segoff rt opmsg localSeq fromSnapshot sp cs rollback =
        Inr (nextRef st,
             st\<lparr>refs := (refs st)(nextRef st :=
                    \<lparr>segment = None, offset = 0, refType = rt, slidingPreference = sp,
                     canSlideToEndpoint = None, refProperties = None\<rparr>),
                nextRef := Suc (nextRef st)\<rparr>))"
proof -
  define cond where
    "cond = (opmsg = None \<and> (localSeq = None \<or> localSeq = Some 0) \<and>
      fromSnapshot \<noteq> Some True \<and> rollback \<noteq> Some True \<and> rt AND ReferenceType_Transient = 0)"
  have tn: "(\<not> truthyNumber localSeq) = (localSeq = None \<or> localSeq = Some 0)"
    by (cases localSeq) (simp_all add: truthyNumber_def)
  have tb: "\<And>b. (\<not> truthyBoolean b) = (b \<noteq> Some True)"
    by (simp add: truthyBoolean_def split: option.splits)
  have test: "(opmsg = None \<and> \<not> truthyNumber localSeq \<and> \<not> truthyBoolean fromSnapshot \<and>
      \<not> refTypeIncludesFlag rt ReferenceType_Transient \<and> \<not> truthyBoolean rollback) = cond"
    unfolding cond_def tn tb refTypeIncludesFlag_def by blast
  have undef: "segmentUndefined segoff \<Longrightarrow>
      createPositionReferenceFromSegoff st segoff rt opmsg localSeq fromSnapshot sp cs rollback =
        (if cond then Inl (UsageError ''Non-transient references need segment'')
         else Inr (createDetachedLocalReferencePosition st sp rt))"
    by (simp add: createPositionReferenceFromSegoff_def segmentUndefined_def test
        split: Segoff.splits option.splits)
  have def: "\<not> segmentUndefined segoff \<Longrightarrow>
      \<exists>p. createPositionReferenceFromSegoff st segoff rt opmsg localSeq fromSnapshot sp cs rollback =
        Inr p"
    by (simp add: createPositionReferenceFromSegoff_def segmentUndefined_def
        split: Segoff.splits option.splits)
  have det: "createDetachedLocalReferencePosition st sp rt =
      (nextRef st,
             st\<lparr>refs := (refs st)(nextRef st :=
                    \<lparr>segment = None, offset = 0, refType = rt, slidingPreference = sp,
                     canSlideToEndpoint = None, refProperties = None\<rparr>),
                nextRef := Suc (nextRef st)\<rparr>)"
    by (simp add: createDetachedLocalReferencePosition_def allocate_def)
  show ?thesis
  proof (cases "segmentUndefined segoff")
    case True
    have r: "createPositionReferenceFromSegoff st segoff rt opmsg localSeq fromSnapshot sp cs rollback =
        (if cond then Inl (UsageError ''Non-transient references need segment'')
         else Inr (nextRef st,
             st\<lparr>refs := (refs st)(nextRef st :=
                    \<lparr>segment = None, offset = 0, refType = rt, slidingPreference = sp,
                     canSlideToEndpoint = None, refProperties = None\<rparr>),
                nextRef := Suc (nextRef st)\<rparr>))"
      using undef [OF True] det by simp
    have "(createPositionReferenceFromSegoff st segoff rt opmsg localSeq fromSnapshot sp cs rollback =
      Inl (UsageError ''Non-transient references need segment'')) = (segmentUndefined segoff \<and> cond) \<and>
     (\<forall>e. createPositionReferenceFromSegoff st segoff rt opmsg localSeq fromSnapshot sp cs rollback =
          Inl e \<longrightarrow> e = UsageError ''Non-transient references need segment'') \<and>
     (segmentUndefined segoff \<and> \<not> cond \<longrightarrow>
      createPositionReferenceFromSegoff st segoff rt opmsg localSeq fromSnapshot sp cs rollback =
        Inr (nextRef st,
             st\<lparr>refs := (refs st)(nextRef st :=
                    \<lparr>segment = None, offset = 0, refType = rt, slidingPreference = sp,
                     canSlideToEndpoint = None, refProperties = None\<rparr>),
                nextRef := Suc (nextRef st)\<rparr>))"
      unfolding r using True by (cases cond) simp_all
    then show ?thesis unfolding cond_def .
  next
    case False
    from def [OF False] obtain p where
      pe: "createPositionReferenceFromSegoff st segoff rt opmsg localSeq fromSnapshot sp cs rollback =
        Inr p" by blast
    show ?thesis unfolding pe by (simp add: False)
  qed
qed

theorem createPositionReferenceFromSegoff_usage_error_witness:
  "segmentUndefined SegoffUndefined \<and>
   createPositionReferenceFromSegoff store0 SegoffUndefined
       (ReferenceType_RangeBegin OR ReferenceType_StayOnRemove) None None None
       (Some FORWARD) (Some False) None =
     Inl (UsageError ''Non-transient references need segment'') \<and>
   createPositionReferenceFromSegoff store0 SegoffUndefined
       (ReferenceType_RangeBegin OR ReferenceType_StayOnRemove) None (Some 3) None
       (Some FORWARD) (Some False) None =
     Inr (nextRef store0,
          store0\<lparr>refs := (refs store0)(nextRef store0 :=
                     \<lparr>segment = None, offset = 0,
                      refType = ReferenceType_RangeBegin OR ReferenceType_StayOnRemove,
                      slidingPreference = Some FORWARD,
                      canSlideToEndpoint = None, refProperties = None\<rparr>),
                  nextRef := Suc (nextRef store0)\<rparr>) \<and>
   nextRef store0 = 0"
proof -
  have u: "segmentUndefined SegoffUndefined"
    by (simp add: segmentUndefined_def)
  have nt: "(ReferenceType_RangeBegin OR ReferenceType_StayOnRemove) AND ReferenceType_Transient = 0"
    by (simp add: ReferenceType_RangeBegin_def ReferenceType_StayOnRemove_def
        ReferenceType_Transient_def)
  have n0: "nextRef store0 = 0"
    by (simp add: store0_def)
  have c1: "segmentUndefined SegoffUndefined \<and> (None :: ISequencedDocumentMessage option) = None \<and>
      ((None :: int option) = None \<or> (None :: int option) = Some 0) \<and>
      (None :: bool option) \<noteq> Some True \<and> (None :: bool option) \<noteq> Some True \<and>
      (ReferenceType_RangeBegin OR ReferenceType_StayOnRemove) AND ReferenceType_Transient = 0"
    using u nt by simp
  have c2: "segmentUndefined SegoffUndefined \<and>
      \<not> ((None :: ISequencedDocumentMessage option) = None \<and>
      (Some (3::int) = None \<or> Some (3::int) = Some 0) \<and>
      (None :: bool option) \<noteq> Some True \<and> (None :: bool option) \<noteq> Some True \<and>
      (ReferenceType_RangeBegin OR ReferenceType_StayOnRemove) AND ReferenceType_Transient = 0)"
    using u by simp
  note t1 = createPositionReferenceFromSegoff_usage_error [of store0 SegoffUndefined
        "ReferenceType_RangeBegin OR ReferenceType_StayOnRemove" None None None
        "Some FORWARD" "Some False" None]
  note t2 = createPositionReferenceFromSegoff_usage_error [of store0 SegoffUndefined
        "ReferenceType_RangeBegin OR ReferenceType_StayOnRemove" None "Some 3" None
        "Some FORWARD" "Some False" None]
  have e1: "createPositionReferenceFromSegoff store0 SegoffUndefined
       (ReferenceType_RangeBegin OR ReferenceType_StayOnRemove) None None None
       (Some FORWARD) (Some False) None =
     Inl (UsageError ''Non-transient references need segment'')"
    using t1 [THEN conjunct1, THEN iffD2, OF c1] .
  have e2: "createPositionReferenceFromSegoff store0 SegoffUndefined
       (ReferenceType_RangeBegin OR ReferenceType_StayOnRemove) None (Some 3) None
       (Some FORWARD) (Some False) None =
     Inr (nextRef store0,
          store0\<lparr>refs := (refs store0)(nextRef store0 :=
                     \<lparr>segment = None, offset = 0,
                      refType = ReferenceType_RangeBegin OR ReferenceType_StayOnRemove,
                      slidingPreference = Some FORWARD,
                      canSlideToEndpoint = None, refProperties = None\<rparr>),
                  nextRef := Suc (nextRef store0)\<rparr>)"
    using t2 [THEN conjunct2, THEN conjunct2, THEN mp, OF c2] .
  show ?thesis using u e1 e2 n0 by (intro conjI)
qed

text \<open>
  The claim as stated fails for \<open>localSeq = 0\<close>: the request carries a \<open>localSeq\<close>, yet
  \<open>!localSeq\<close> holds and the usage error is raised.
\<close>

theorem createPositionReferenceFromSegoff_localSeq_zero:
  "Some (0::int) \<noteq> None \<and>
   createPositionReferenceFromSegoff store0 SegoffUndefined
       (ReferenceType_RangeBegin OR ReferenceType_StayOnRemove) None (Some 0) None
       (Some FORWARD) (Some False) None =
     Inl (UsageError ''Non-transient references need segment'')"
  by (simp add: createPositionReferenceFromSegoff_def truthyNumber_def truthyBoolean_def
      refTypeIncludesFlag_def ReferenceType_RangeBegin_def ReferenceType_StayOnRemove_def
      ReferenceType_Transient_def)

section \<open>Reference types of created intervals (C1)\<close>

lemma createPositionReferenceFromSegoff_Inr:
  assumes "createPositionReferenceFromSegoff st segoff rt opmsg localSeq fromSnapshot sp cs rollback =
             Inr (r, st')"
  shows "r = nextRef st \<and> nextRef st' = Suc (nextRef st) \<and> uuidCount st' = uuidCount st \<and>
         refType (refs st' r) = rt \<and> refProperties (refs st' r) = None \<and>
         (\<forall>a. a \<noteq> nextRef st \<longrightarrow> refs st' a = refs st a)"
  using assms
  by (auto simp: createPositionReferenceFromSegoff_def createLocalReferencePosition_def
      createDetachedLocalReferencePosition_def allocate_def
      split: Segoff.splits option.splits if_splits)

lemma createPositionReference_Inr:
  assumes "createPositionReference env st pos rt opmsg fromSnapshot localSeq sp exclusive
             useNewSlidingBehavior rollback = Inr (r, st')"
  shows "r = nextRef st \<and> nextRef st' = Suc (nextRef st) \<and> uuidCount st' = uuidCount st \<and>
         refType (refs st' r) = rt \<and> refProperties (refs st' r) = None \<and>
         (\<forall>a. a \<noteq> nextRef st \<longrightarrow> refs st' a = refs st a)"
proof -
  from assms obtain segoff where
    "createPositionReferenceFromSegoff st segoff rt opmsg localSeq fromSnapshot sp
       (Some exclusive) rollback = Inr (r, st')"
    by (auto simp: createPositionReference_def Let_def split: option.splits if_splits)
  then show ?thesis by (rule createPositionReferenceFromSegoff_Inr)
qed

lemma lref_addProperties_simps:
  "refType (refs (lref_addProperties env st r p) a) = refType (refs st a)"
  "segment (refs (lref_addProperties env st r p) a) = segment (refs st a)"
  "nextRef (lref_addProperties env st r p) = nextRef st"
  "uuidCount (lref_addProperties env st r p) = uuidCount st"
  "a \<noteq> r \<Longrightarrow> refs (lref_addProperties env st r p) a = refs st a"
  by (simp_all add: lref_addProperties_def)

lemma createSequenceInterval_Inr:
  assumes eq: "createSequenceInterval env st lbl iid startP endP itype opmsg fromSnapshot
                 useNewSlidingBehavior props rollback = Inr (i, st')"
  shows "startLref i = nextRef st \<and> endLref i = Suc (nextRef st) \<and>
         nextRef st' = Suc (Suc (nextRef st)) \<and> uuidCount st' = uuidCount st \<and>
         refType (refs st' (startLref i)) = fst (creationRefTypes itype opmsg fromSnapshot) \<and>
         refType (refs st' (endLref i)) = snd (creationRefTypes itype opmsg fromSnapshot) \<and>
         (\<forall>a. a < nextRef st \<longrightarrow> refs st' a = refs st a) \<and>
         intervalId i = iid \<and> label i = lbl \<and> intervalType i = itype \<and>
         properties i =
           (case props of None \<Rightarrow> createMap
            | Some p \<Rightarrow> addProperties env createMap
                         (p(reservedIntervalIdKey := None, reservedRangeLabelsKey := None)))"
proof -
  obtain bt et where rt: "creationRefTypes itype opmsg fromSnapshot = (bt, et)"
    by (cases "creationRefTypes itype opmsg fromSnapshot")
  from eq obtain sPos ePos sSide eSide sp1 ex1 sp2 ex2 r1 st1 r2 st2 rp where
    c1: "createPositionReference env st sPos bt opmsg fromSnapshot None sp1 ex1
           useNewSlidingBehavior rollback = Inr (r1, st1)"
    and c2: "createPositionReference env st1 ePos et opmsg fromSnapshot None sp2 ex2
           useNewSlidingBehavior rollback = Inr (r2, st2)"
    and i: "i = newSequenceIntervalClass env iid lbl r1 r2 itype
              (map_option (\<lambda>p. p(reservedIntervalIdKey := None, reservedRangeLabelsKey := None)) props)
              (Some sSide) (Some eSide)"
    and st': "st' = lref_addProperties env (lref_addProperties env st2 r1 rp) r2 rp"
    by (auto simp: createSequenceInterval_def rt Let_def
        split: prod.splits option.splits sum.splits)
  note f1 = createPositionReference_Inr [OF c1]
  note f2 = createPositionReference_Inr [OF c2]
  have r1: "r1 = nextRef st" and n1: "nextRef st1 = Suc (nextRef st)"
    and t1: "refType (refs st1 r1) = bt"
    and o1: "\<And>a. a \<noteq> nextRef st \<Longrightarrow> refs st1 a = refs st a"
    using f1 by blast+
  have r2: "r2 = nextRef st1" and n2: "nextRef st2 = Suc (nextRef st1)"
    and t2: "refType (refs st2 r2) = et"
    and o2: "\<And>a. a \<noteq> nextRef st1 \<Longrightarrow> refs st2 a = refs st1 a"
    using f2 by blast+
  have u: "uuidCount st2 = uuidCount st"
    using f1 f2 by simp
  have t1': "refType (refs st2 r1) = bt"
    using o2 [of r1] t1 r1 n1 by simp
  have old: "\<forall>a. a < nextRef st \<longrightarrow> refs st' a = refs st a"
  proof (intro allI impI)
    fix a assume a: "a < nextRef st"
    then have "refs st2 a = refs st a"
      using o2 [of a] o1 [of a] n1 by simp
    then show "refs st' a = refs st a"
      using a r1 r2 n1 by (simp add: st' lref_addProperties_simps)
  qed
  have props: "properties i =
           (case props of None \<Rightarrow> createMap
            | Some p \<Rightarrow> addProperties env createMap
                         (p(reservedIntervalIdKey := None, reservedRangeLabelsKey := None)))"
    by (simp add: i newSequenceIntervalClass_def split: option.splits)
  have fields: "startLref i = r1" "endLref i = r2" "intervalId i = iid" "label i = lbl"
    "intervalType i = itype"
    by (simp_all add: i newSequenceIntervalClass_def)
  have st'f: "nextRef st' = nextRef st2" "uuidCount st' = uuidCount st2"
    "refType (refs st' r1) = refType (refs st2 r1)" "refType (refs st' r2) = refType (refs st2 r2)"
    by (simp_all add: st' lref_addProperties_simps)
  show ?thesis
    unfolding fields st'f t1' t2 rt using r1 r2 n1 n2 u old props by simp
qed

text \<open>
  Claim C1, as the code has it. On every interval that \<open>createSequenceInterval\<close> returns:
  for a transient interval both endpoint refTypes are exactly \<open>Transient\<close> (the flag is
  assigned, \<open>RangeBegin\<close> and \<open>RangeEnd\<close> are dropped); otherwise the begin refType is
  \<open>RangeBegin\<close> and the end refType \<open>RangeEnd\<close>, each with \<open>SlideOnRemove\<close> OR-ed in when
  the creation comes from an op or a snapshot and with \<open>StayOnRemove\<close> OR-ed in otherwise,
  so that \<open>SlideOnRemove\<close> is included exactly for an op or a snapshot and
  \<open>StayOnRemove\<close> exactly in the other case.
\<close>

theorem createSequenceInterval_refTypes:
  "createSequenceInterval env st lbl iid startP endP itype opmsg fromSnapshot
     useNewSlidingBehavior props rollback = Inr (i, st') \<Longrightarrow>
   (itype = IntervalType_Transient \<longrightarrow>
      refType (refs st' (startLref i)) = ReferenceType_Transient \<and>
      refType (refs st' (endLref i)) = ReferenceType_Transient) \<and>
   (itype \<noteq> IntervalType_Transient \<and> (opmsg \<noteq> None \<or> fromSnapshot = Some True) \<longrightarrow>
      refType (refs st' (startLref i)) = ReferenceType_RangeBegin OR ReferenceType_SlideOnRemove \<and>
      refType (refs st' (endLref i)) = ReferenceType_RangeEnd OR ReferenceType_SlideOnRemove) \<and>
   (itype \<noteq> IntervalType_Transient \<and> opmsg = None \<and> fromSnapshot \<noteq> Some True \<longrightarrow>
      refType (refs st' (startLref i)) = ReferenceType_RangeBegin OR ReferenceType_StayOnRemove \<and>
      refType (refs st' (endLref i)) = ReferenceType_RangeEnd OR ReferenceType_StayOnRemove) \<and>
   (itype \<noteq> IntervalType_Transient \<longrightarrow>
      refTypeIncludesFlag (refType (refs st' (startLref i))) ReferenceType_SlideOnRemove =
        (opmsg \<noteq> None \<or> fromSnapshot = Some True) \<and>
      refTypeIncludesFlag (refType (refs st' (endLref i))) ReferenceType_SlideOnRemove =
        (opmsg \<noteq> None \<or> fromSnapshot = Some True) \<and>
      refTypeIncludesFlag (refType (refs st' (startLref i))) ReferenceType_StayOnRemove =
        (\<not> (opmsg \<noteq> None \<or> fromSnapshot = Some True)) \<and>
      refTypeIncludesFlag (refType (refs st' (endLref i))) ReferenceType_StayOnRemove =
        (\<not> (opmsg \<noteq> None \<or> fromSnapshot = Some True)))"
proof -
  assume eq: "createSequenceInterval env st lbl iid startP endP itype opmsg fromSnapshot
     useNewSlidingBehavior props rollback = Inr (i, st')"
  have tb: "truthyBoolean fromSnapshot = (fromSnapshot = Some True)"
    by (simp add: truthyBoolean_def split: option.splits)
  note r = createSequenceInterval_Inr [OF eq]
  have s: "refType (refs st' (startLref i)) = fst (creationRefTypes itype opmsg fromSnapshot)"
    and e: "refType (refs st' (endLref i)) = snd (creationRefTypes itype opmsg fromSnapshot)"
    using r by blast+
  show ?thesis
    unfolding s e
    by (simp add: creationRefTypes_def tb refTypeIncludesFlag_def
        ReferenceType_RangeBegin_def ReferenceType_RangeEnd_def ReferenceType_SlideOnRemove_def
        ReferenceType_StayOnRemove_def ReferenceType_Transient_def)
qed

theorem createSequenceInterval_refTypes_witness:
  "(\<exists>i st'. createSequenceInterval env0 store0 ''x'' ''A'' (Some (Plain (Num 0)))
               (Some (Plain (Num 5))) IntervalType_SlideOnRemove None None False None None =
             Inr (i, st') \<and>
           refType (refs st' (startLref i)) =
             ReferenceType_RangeBegin OR ReferenceType_StayOnRemove \<and>
           refType (refs st' (endLref i)) =
             ReferenceType_RangeEnd OR ReferenceType_StayOnRemove) \<and>
   (\<exists>i st'. createSequenceInterval env0 store0 ''x'' ''A'' (Some (Plain (Num 0)))
               (Some (Plain (Num 5))) IntervalType_SlideOnRemove (Some exampleOp) None False
               None None = Inr (i, st') \<and>
           refType (refs st' (startLref i)) =
             ReferenceType_RangeBegin OR ReferenceType_SlideOnRemove \<and>
           refType (refs st' (endLref i)) =
             ReferenceType_RangeEnd OR ReferenceType_SlideOnRemove) \<and>
   (\<exists>i st'. createSequenceInterval env0 store0 ''transient'' ''T'' (Some (Plain (Num 0)))
               (Some (Plain (Num 5))) IntervalType_Transient None None False None None =
             Inr (i, st') \<and>
           refType (refs st' (startLref i)) = ReferenceType_Transient \<and>
           refType (refs st' (endLref i)) = ReferenceType_Transient)"
proof -
  have "\<exists>i st'. createSequenceInterval env0 store0 ''x'' ''A'' (Some (Plain (Num 0)))
               (Some (Plain (Num 5))) IntervalType_SlideOnRemove None None False None None =
             Inr (i, st')"
    by (simp add: factory_defs env0_def store0_def Let_def)
  then obtain i1 s1 where
    c1: "createSequenceInterval env0 store0 ''x'' ''A'' (Some (Plain (Num 0)))
               (Some (Plain (Num 5))) IntervalType_SlideOnRemove None None False None None =
             Inr (i1, s1)"
    by blast
  have "\<exists>i st'. createSequenceInterval env0 store0 ''x'' ''A'' (Some (Plain (Num 0)))
               (Some (Plain (Num 5))) IntervalType_SlideOnRemove (Some exampleOp) None False
               None None = Inr (i, st')"
    by (simp add: factory_defs env0_def store0_def Let_def)
  then obtain i2 s2 where
    c2: "createSequenceInterval env0 store0 ''x'' ''A'' (Some (Plain (Num 0)))
               (Some (Plain (Num 5))) IntervalType_SlideOnRemove (Some exampleOp) None False
               None None = Inr (i2, s2)"
    by blast
  have "\<exists>i st'. createSequenceInterval env0 store0 ''transient'' ''T'' (Some (Plain (Num 0)))
               (Some (Plain (Num 5))) IntervalType_Transient None None False None None =
             Inr (i, st')"
    by (simp add: factory_defs env0_def store0_def Let_def)
  then obtain i3 s3 where
    c3: "createSequenceInterval env0 store0 ''transient'' ''T'' (Some (Plain (Num 0)))
               (Some (Plain (Num 5))) IntervalType_Transient None None False None None =
             Inr (i3, s3)"
    by blast
  show ?thesis
    using createSequenceInterval_refTypes [OF c1] createSequenceInterval_refTypes [OF c2]
      createSequenceInterval_refTypes [OF c3] c1 c2 c3
    by simp
qed

text \<open>
  The claim as stated fails for transient intervals: the flag \<open>Transient\<close> is assigned, not
  OR-ed into \<open>RangeBegin\<close> and \<open>RangeEnd\<close>.
\<close>

theorem createTransientInterval_refTypes:
  "endpointRefTypes
     (createTransientInterval env0 store0 (Some (Plain (Num 0))) (Some (Plain (Num 5)))) =
     Some (ReferenceType_Transient, ReferenceType_Transient) \<and>
   ReferenceType_Transient \<noteq> ReferenceType_RangeBegin OR ReferenceType_Transient \<and>
   ReferenceType_Transient \<noteq> ReferenceType_RangeEnd OR ReferenceType_Transient"
  by (simp add: endpointRefTypes_def createTransientInterval_def uuid_v4_def factory_defs
      env0_def store0_def Let_def)

section \<open>Modifying an interval (C2)\<close>

lemma getRefType_local_bits:
  "\<not> refTypeIncludesFlag (getRefType None r) ReferenceType_SlideOnRemove \<and>
   refTypeIncludesFlag (getRefType None r) ReferenceType_StayOnRemove"
proof -
  have "(r AND NOT ReferenceType_SlideOnRemove OR ReferenceType_StayOnRemove) AND
          ReferenceType_SlideOnRemove =
        r AND (NOT ReferenceType_SlideOnRemove AND ReferenceType_SlideOnRemove) OR
        ReferenceType_StayOnRemove AND ReferenceType_SlideOnRemove"
    by (simp add: bit.conj_disj_distrib2 and.assoc)
  also have "\<dots> = 0"
    by (simp add: ReferenceType_SlideOnRemove_def ReferenceType_StayOnRemove_def)
  finally have slide: "(r AND NOT ReferenceType_SlideOnRemove OR ReferenceType_StayOnRemove) AND
          ReferenceType_SlideOnRemove = 0" .
  have "(r AND NOT ReferenceType_SlideOnRemove OR ReferenceType_StayOnRemove) AND
          ReferenceType_StayOnRemove =
        (r AND NOT ReferenceType_SlideOnRemove) AND ReferenceType_StayOnRemove OR
        ReferenceType_StayOnRemove"
    by (simp add: bit.conj_disj_distrib2)
  moreover have "ReferenceType_StayOnRemove \<noteq> 0"
    by (simp add: ReferenceType_StayOnRemove_def)
  ultimately have stay: "(r AND NOT ReferenceType_SlideOnRemove OR ReferenceType_StayOnRemove) AND
          ReferenceType_StayOnRemove \<noteq> 0"
    by (simp add: or_eq_0_iff)
  show ?thesis
    using slide stay by (simp add: getRefType_def refTypeIncludesFlag_def)
qed

lemma modifyEndpoint_Inr:
  assumes eq: "modifyEndpoint env st old newPos opmsg localSeq sp ex useNewSlidingBehavior =
                 Inr (r, st')"
  shows "(newPos = None \<longrightarrow> r = old \<and> st' = st) \<and>
         (newPos \<noteq> None \<longrightarrow>
            r = nextRef st \<and> nextRef st' = Suc (nextRef st) \<and>
            refType (refs st' r) = getRefType opmsg (refType (refs st old))) \<and>
         (\<forall>a. a < nextRef st \<longrightarrow> refs st' a = refs st a) \<and>
         nextRef st \<le> nextRef st' \<and> uuidCount st' = uuidCount st"
proof (cases newPos)
  case None
  then show ?thesis using eq by (simp add: modifyEndpoint_def)
next
  case (Some p)
  from eq Some obtain st1 where
    c: "createPositionReference env st p (getRefType opmsg (refType (refs st old))) opmsg None
          localSeq (Some sp) ex useNewSlidingBehavior None = Inr (r, st1)"
    and st': "st' = (case refProperties (refs st1 old) of None \<Rightarrow> st1
                    | Some ps \<Rightarrow> lref_addProperties env st1 r ps)"
    by (auto simp: modifyEndpoint_def split: sum.splits)
  note f = createPositionReference_Inr [OF c]
  have r: "r = nextRef st" and n: "nextRef st1 = Suc (nextRef st)"
    and t: "refType (refs st1 r) = getRefType opmsg (refType (refs st old))"
    and o: "\<And>a. a \<noteq> nextRef st \<Longrightarrow> refs st1 a = refs st a"
    and u: "uuidCount st1 = uuidCount st"
    using f by blast+
  have 1: "nextRef st' = nextRef st1" "uuidCount st' = uuidCount st1"
    "refType (refs st' r) = refType (refs st1 r)"
    by (simp_all add: st' lref_addProperties_simps split: option.splits)
  have 2: "\<forall>a. a < nextRef st \<longrightarrow> refs st' a = refs st a"
  proof (intro allI impI)
    fix a assume a: "a < nextRef st"
    then have "refs st' a = refs st1 a"
      using r by (simp add: st' lref_addProperties_simps split: option.splits)
    then show "refs st' a = refs st a" using o [of a] a by simp
  qed
  show ?thesis
    unfolding 1 using Some r n t u 2 by simp
qed

text \<open>
  Claim C2. Whenever \<open>modify\<close> returns an interval \<open>i'\<close> for an interval of the store: the
  id of \<open>i'\<close> is the id of the original; an endpoint for which no new place is given is the
  very same PR object, left as it was; an endpoint for which a place is given is a PR
  object that did not exist before, whose refType is the old endpoint's refType with
  \<open>SlideOnRemove\<close> cleared and \<open>StayOnRemove\<close> set when there is no op, and the old
  endpoint's refType unchanged when there is an op.
\<close>

theorem modify_keeps_id_and_unchanged_endpoints:
  "modify env st this lbl startP endP opmsg localSeq useNewSlidingBehavior = Inr (i', st') \<Longrightarrow>
   startLref this < nextRef st \<Longrightarrow> endLref this < nextRef st \<Longrightarrow>
   getIntervalId i' = getIntervalId this \<and>
   (startP = None \<longrightarrow> startLref i' = startLref this) \<and>
   (endP = None \<longrightarrow> endLref i' = endLref this) \<and>
   refs st' (startLref this) = refs st (startLref this) \<and>
   refs st' (endLref this) = refs st (endLref this) \<and>
   (startP \<noteq> None \<longrightarrow>
      nextRef st \<le> startLref i' \<and> startLref i' < nextRef st' \<and>
      refType (refs st' (startLref i')) =
        (if opmsg = None
         then (refType (refs st (startLref this)) AND NOT ReferenceType_SlideOnRemove) OR
              ReferenceType_StayOnRemove
         else refType (refs st (startLref this))) \<and>
      (opmsg = None \<longrightarrow>
         \<not> refTypeIncludesFlag (refType (refs st' (startLref i'))) ReferenceType_SlideOnRemove \<and>
         refTypeIncludesFlag (refType (refs st' (startLref i'))) ReferenceType_StayOnRemove)) \<and>
   (endP \<noteq> None \<longrightarrow>
      nextRef st \<le> endLref i' \<and> endLref i' < nextRef st' \<and>
      refType (refs st' (endLref i')) =
        (if opmsg = None
         then (refType (refs st (endLref this)) AND NOT ReferenceType_SlideOnRemove) OR
              ReferenceType_StayOnRemove
         else refType (refs st (endLref this))) \<and>
      (opmsg = None \<longrightarrow>
         \<not> refTypeIncludesFlag (refType (refs st' (endLref i'))) ReferenceType_SlideOnRemove \<and>
         refTypeIncludesFlag (refType (refs st' (endLref i'))) ReferenceType_StayOnRemove))"
proof -
  assume eq: "modify env st this lbl startP endP opmsg localSeq useNewSlidingBehavior =
                Inr (i', st')"
    and ws: "startLref this < nextRef st" and we: "endLref this < nextRef st"
  from eq obtain sp1 ex1 sp2 ex2 r1 st1 r2 where
    m1: "modifyEndpoint env st (startLref this) (placePos startP) opmsg localSeq sp1 ex1
           useNewSlidingBehavior = Inr (r1, st1)"
    and m2: "modifyEndpoint env st1 (endLref this) (placePos endP) opmsg localSeq sp2 ex2
           useNewSlidingBehavior = Inr (r2, st')"
    and s: "startLref i' = r1" and e: "endLref i' = r2"
    and iid: "intervalId i' = intervalId this"
    by (auto simp: modify_def endpointPosAndSide_def Let_def copyPropertiesAndManager_def
        newSequenceIntervalClass_def split: sum.splits prod.splits)
  have pp: "\<And>p. (placePos p = None) = (p = None)"
    by (simp add: placePos_def split: option.splits SequencePlace.splits)
  note f1 = modifyEndpoint_Inr [OF m1]
  note f2 = modifyEndpoint_Inr [OF m2]
  have keep1: "\<And>a. a < nextRef st \<Longrightarrow> refs st1 a = refs st a"
    using f1 [THEN conjunct2, THEN conjunct2, THEN conjunct1] by simp
  have le1: "nextRef st \<le> nextRef st1"
    using f1 [THEN conjunct2, THEN conjunct2, THEN conjunct2, THEN conjunct1] .
  have keep2: "\<And>a. a < nextRef st1 \<Longrightarrow> refs st' a = refs st1 a"
    using f2 [THEN conjunct2, THEN conjunct2, THEN conjunct1] by simp
  have le2: "nextRef st1 \<le> nextRef st'"
    using f2 [THEN conjunct2, THEN conjunct2, THEN conjunct2, THEN conjunct1] .
  have keep: "\<And>a. a < nextRef st \<Longrightarrow> refs st' a = refs st a"
    using keep1 keep2 le1 by simp
  have gr: "\<And>r. getRefType opmsg r =
      (if opmsg = None
       then (r AND NOT ReferenceType_SlideOnRemove) OR ReferenceType_StayOnRemove else r)"
    by (simp add: getRefType_def)
  have start_new: "startP \<noteq> None \<Longrightarrow>
      r1 = nextRef st \<and> nextRef st1 = Suc (nextRef st) \<and>
      refType (refs st1 r1) = getRefType opmsg (refType (refs st (startLref this)))"
    using f1 [THEN conjunct2, THEN conjunct1] by (auto simp: pp)
  have end_new: "endP \<noteq> None \<Longrightarrow>
      r2 = nextRef st1 \<and> nextRef st' = Suc (nextRef st1) \<and>
      refType (refs st' r2) = getRefType opmsg (refType (refs st1 (endLref this)))"
    using f2 [THEN conjunct2, THEN conjunct1] by (auto simp: pp)
  have c1: "getIntervalId i' = getIntervalId this"
    by (simp add: getIntervalId_def iid)
  have c2: "startP = None \<longrightarrow> startLref i' = startLref this"
    using f1 [THEN conjunct1] s by (simp add: pp)
  have c3: "endP = None \<longrightarrow> endLref i' = endLref this"
    using f2 [THEN conjunct1] e by (simp add: pp)
  have c4: "refs st' (startLref this) = refs st (startLref this)"
    "refs st' (endLref this) = refs st (endLref this)"
    using keep ws we by simp_all
  have c5: "startP \<noteq> None \<longrightarrow>
      nextRef st \<le> startLref i' \<and> startLref i' < nextRef st' \<and>
      refType (refs st' (startLref i')) = getRefType opmsg (refType (refs st (startLref this)))"
  proof
    assume n: "startP \<noteq> None"
    from start_new [OF n] have a: "r1 = nextRef st" "nextRef st1 = Suc (nextRef st)"
      "refType (refs st1 r1) = getRefType opmsg (refType (refs st (startLref this)))"
      by auto
    have "refs st' r1 = refs st1 r1" using keep2 [of r1] a by simp
    then show "nextRef st \<le> startLref i' \<and> startLref i' < nextRef st' \<and>
      refType (refs st' (startLref i')) = getRefType opmsg (refType (refs st (startLref this)))"
      using a s le2 by simp
  qed
  have c6: "endP \<noteq> None \<longrightarrow>
      nextRef st \<le> endLref i' \<and> endLref i' < nextRef st' \<and>
      refType (refs st' (endLref i')) = getRefType opmsg (refType (refs st (endLref this)))"
  proof
    assume n: "endP \<noteq> None"
    from end_new [OF n] have a: "r2 = nextRef st1" "nextRef st' = Suc (nextRef st1)"
      "refType (refs st' r2) = getRefType opmsg (refType (refs st1 (endLref this)))"
      by auto
    have "refs st1 (endLref this) = refs st (endLref this)" using keep1 we by simp
    then show "nextRef st \<le> endLref i' \<and> endLref i' < nextRef st' \<and>
      refType (refs st' (endLref i')) = getRefType opmsg (refType (refs st (endLref this)))"
      using a e le1 by simp
  qed
  have bits: "\<And>r. opmsg = None \<longrightarrow>
      \<not> refTypeIncludesFlag (getRefType opmsg r) ReferenceType_SlideOnRemove \<and>
      refTypeIncludesFlag (getRefType opmsg r) ReferenceType_StayOnRemove"
    using getRefType_local_bits by simp
  have c5': "startP \<noteq> None \<longrightarrow>
      (opmsg = None \<longrightarrow>
         \<not> refTypeIncludesFlag (refType (refs st' (startLref i'))) ReferenceType_SlideOnRemove \<and>
         refTypeIncludesFlag (refType (refs st' (startLref i'))) ReferenceType_StayOnRemove)"
    using c5 bits [of "refType (refs st (startLref this))"] by simp
  have c6': "endP \<noteq> None \<longrightarrow>
      (opmsg = None \<longrightarrow>
         \<not> refTypeIncludesFlag (refType (refs st' (endLref i'))) ReferenceType_SlideOnRemove \<and>
         refTypeIncludesFlag (refType (refs st' (endLref i'))) ReferenceType_StayOnRemove)"
    using c6 bits [of "refType (refs st (endLref this))"] by simp
  show ?thesis
    using c1 c2 c3 c4 c5 c6 c5' c6' unfolding gr by simp
qed

lemmas modify_defs =
  modify_def modifyEndpoint_def getRefType_def copyPropertiesAndManager_def getIntervalId_def

text \<open>
  Two runs on the concrete client: a local change of the start of interval A to position 1,
  and a change by an op of the start of an interval that an op created.
\<close>

theorem modify_keeps_id_and_unchanged_endpoints_witness:
  "(\<exists>i' st'. modify env0 exampleStore intervalA ''x'' (Some (Interior 1 Before)) None None None
                False = Inr (i', st') \<and>
            startLref intervalA < nextRef exampleStore \<and>
            endLref intervalA < nextRef exampleStore \<and>
            getIntervalId i' = ''A'' \<and> endLref i' = endLref intervalA \<and>
            startLref i' = 10 \<and>
            refType (refs st' (startLref i')) =
              ReferenceType_RangeBegin OR ReferenceType_StayOnRemove) \<and>
   (\<exists>i st i' st'. createSequenceInterval env0 store0 ''x'' ''A'' (Some (Plain (Num 0)))
                     (Some (Plain (Num 5))) IntervalType_SlideOnRemove (Some exampleOp) None
                     False None None = Inr (i, st) \<and>
                  startLref i < nextRef st \<and> endLref i < nextRef st \<and>
                  modify env0 st i ''x'' (Some (Interior 1 Before)) None (Some exampleOp) None
                    False = Inr (i', st') \<and>
                  getIntervalId i' = ''A'' \<and> endLref i' = endLref i \<and>
                  refType (refs st' (startLref i')) =
                    ReferenceType_RangeBegin OR ReferenceType_SlideOnRemove)"
proof -
  have "\<exists>i' st'. modify env0 exampleStore intervalA ''x'' (Some (Interior 1 Before)) None None
          None False = Inr (i', st') \<and> startLref i' = 10"
    by (simp add: modify_defs factory_defs example_defs Let_def)
  then obtain j s where
    m: "modify env0 exampleStore intervalA ''x'' (Some (Interior 1 Before)) None None None
          False = Inr (j, s)"
    and j10: "startLref j = 10"
    by blast
  have w: "startLref intervalA < nextRef exampleStore" "endLref intervalA < nextRef exampleStore"
    by (simp_all add: example_defs)
  have old: "refType (refs exampleStore (startLref intervalA)) =
      ReferenceType_RangeBegin OR ReferenceType_StayOnRemove"
    "getIntervalId intervalA = ''A''"
    by (simp_all add: example_defs getIntervalId_def)
  have keepStay: "(ReferenceType_RangeBegin OR ReferenceType_StayOnRemove) AND
      NOT ReferenceType_SlideOnRemove OR ReferenceType_StayOnRemove =
      ReferenceType_RangeBegin OR ReferenceType_StayOnRemove"
    by (simp add: ReferenceType_RangeBegin_def ReferenceType_StayOnRemove_def
        ReferenceType_SlideOnRemove_def)
  have first: "\<exists>i' st'. modify env0 exampleStore intervalA ''x'' (Some (Interior 1 Before)) None
                None None False = Inr (i', st') \<and>
            startLref intervalA < nextRef exampleStore \<and>
            endLref intervalA < nextRef exampleStore \<and>
            getIntervalId i' = ''A'' \<and> endLref i' = endLref intervalA \<and>
            startLref i' = 10 \<and>
            refType (refs st' (startLref i')) =
              ReferenceType_RangeBegin OR ReferenceType_StayOnRemove"
    using modify_keeps_id_and_unchanged_endpoints [OF m w] m w j10 old keepStay
    by (intro exI [of _ j] exI [of _ s]) simp
  have "\<exists>i st. createSequenceInterval env0 store0 ''x'' ''A'' (Some (Plain (Num 0)))
                     (Some (Plain (Num 5))) IntervalType_SlideOnRemove (Some exampleOp) None
                     False None None = Inr (i, st) \<and>
          startLref i < nextRef st \<and> endLref i < nextRef st \<and> getIntervalId i = ''A'' \<and>
          refType (refs st (startLref i)) =
            ReferenceType_RangeBegin OR ReferenceType_SlideOnRemove \<and>
          (\<exists>p. modify env0 st i ''x'' (Some (Interior 1 Before)) None (Some exampleOp) None
                  False = Inr p)"
    by (simp add: modify_defs factory_defs example_defs Let_def)
  then obtain i st i' st' where
    c: "createSequenceInterval env0 store0 ''x'' ''A'' (Some (Plain (Num 0)))
                     (Some (Plain (Num 5))) IntervalType_SlideOnRemove (Some exampleOp) None
                     False None None = Inr (i, st)"
    and w2: "startLref i < nextRef st" "endLref i < nextRef st"
    and old2: "getIntervalId i = ''A''"
      "refType (refs st (startLref i)) = ReferenceType_RangeBegin OR ReferenceType_SlideOnRemove"
    and m2: "modify env0 st i ''x'' (Some (Interior 1 Before)) None (Some exampleOp) None
                  False = Inr (i', st')"
    by auto
  have second: "\<exists>i st i' st'. createSequenceInterval env0 store0 ''x'' ''A'' (Some (Plain (Num 0)))
                     (Some (Plain (Num 5))) IntervalType_SlideOnRemove (Some exampleOp) None
                     False None None = Inr (i, st) \<and>
                  startLref i < nextRef st \<and> endLref i < nextRef st \<and>
                  modify env0 st i ''x'' (Some (Interior 1 Before)) None (Some exampleOp) None
                    False = Inr (i', st') \<and>
                  getIntervalId i' = ''A'' \<and> endLref i' = endLref i \<and>
                  refType (refs st' (startLref i')) =
                    ReferenceType_RangeBegin OR ReferenceType_SlideOnRemove"
    using modify_keeps_id_and_unchanged_endpoints [OF m2 w2] c w2 old2 m2
    by (intro exI [of _ i] exI [of _ st] exI [of _ i'] exI [of _ st']) simp
  show ?thesis using first second by (rule conjI)
qed

section \<open>Union (C6, C7)\<close>

lemma union_interval_fields:
  assumes "union_interval env st a b = (u, st')"
  shows "startLref u = minReferencePosition env (refs st) (startLref a) (startLref b)"
    and "endLref u = maxReferencePosition env (refs st) (endLref a) (endLref b)"
    and "startSide u =
           (if startLref a = startLref b then minSide (startSide a) (startSide b)
            else if startLref a = startLref u then startSide a else startSide b)"
    and "endSide u =
           (if endLref a = endLref b then maxSide (endSide a) (endSide b)
            else if endLref a = endLref u then endSide a else endSide b)"
    and "intervalId u = uuid env (uuidCount st)"
    and "label u = label a" and "intervalType u = intervalType a"
    and "properties u = createMap"
    and "uuidCount st' = Suc (uuidCount st)" and "refs st' = refs st"
    and "nextRef st' = nextRef st"
  using assms
  by (auto simp: union_interval_def uuid_v4_def newSequenceIntervalClass_def Let_def)

text \<open>
  Claim C6. \<open>a.union(b)\<close> starts at \<open>minReferencePosition(a.start, b.start)\<close> and ends at
  \<open>maxReferencePosition(a.end, b.end)\<close>. When the two start PRs are one object, the start
  side is \<open>Before\<close> if either start side is \<open>Before\<close> and \<open>After\<close> otherwise; when the two
  end PRs are one object, the end side is \<open>After\<close> unless both end sides are \<open>Before\<close>.
  (When the PRs are two objects, the side is the side of the operand whose PR was chosen.)
  The id is the identifier drawn from \<open>uuid()\<close> in this call, the label and the interval
  type are those of \<open>a\<close>, and the properties are empty.
\<close>

theorem union_interval_result:
  "union_interval env st a b = (u, st') \<Longrightarrow>
   startLref u = minReferencePosition env (refs st) (startLref a) (startLref b) \<and>
   endLref u = maxReferencePosition env (refs st) (endLref a) (endLref b) \<and>
   (startLref a = startLref b \<longrightarrow>
      startSide u = (if startSide a = Before \<or> startSide b = Before then Before else After)) \<and>
   (endLref a = endLref b \<longrightarrow>
      endSide u = (if endSide a = Before \<and> endSide b = Before then Before else After)) \<and>
   (startLref a \<noteq> startLref b \<longrightarrow>
      startSide u = (if startLref a = startLref u then startSide a else startSide b)) \<and>
   (endLref a \<noteq> endLref b \<longrightarrow>
      endSide u = (if endLref a = endLref u then endSide a else endSide b)) \<and>
   intervalId u = uuid env (uuidCount st) \<and> uuidCount st' = Suc (uuidCount st) \<and>
   label u = label a \<and> intervalType u = intervalType a \<and> properties u = createMap"
proof -
  assume eq: "union_interval env st a b = (u, st')"
  have mn: "minSide (startSide a) (startSide b) =
      (if startSide a = Before \<or> startSide b = Before then Before else After)"
    by (cases "startSide a"; cases "startSide b") (simp_all add: minSide_def)
  have mx: "maxSide (endSide a) (endSide b) =
      (if endSide a = Before \<and> endSide b = Before then Before else After)"
    by (cases "endSide a"; cases "endSide b") (simp_all add: maxSide_def)
  note f = union_interval_fields [OF eq]
  show ?thesis
    unfolding f(3) f(4) mn mx using f(1,2,5,6,7,8,9) by simp
qed

theorem union_interval_result_witness:
  "(\<exists>u st'. union_interval env0 exampleStore intervalC intervalF = (u, st') \<and>
            startLref intervalC = startLref intervalF \<and>
            startSide intervalC = Before \<and> startSide intervalF = After \<and>
            startLref u = 4 \<and> startSide u = Before \<and> endLref u = 7 \<and> endSide u = Before \<and>
            intervalId u = ''uuid-0'' \<and> label u = ''x'' \<and>
            intervalType u = IntervalType_SlideOnRemove \<and> properties u = createMap) \<and>
   (\<exists>u st'. union_interval env0 exampleStore (intervalD\<lparr>endSide := After\<rparr>) intervalF = (u, st') \<and>
            endLref (intervalD\<lparr>endSide := After\<rparr>) = endLref intervalF \<and>
            endSide intervalF = Before \<and> endLref u = 7 \<and> endSide u = After)"
proof -
  obtain u1 s1 where u1: "union_interval env0 exampleStore intervalC intervalF = (u1, s1)"
    by (cases "union_interval env0 exampleStore intervalC intervalF")
  obtain u2 s2 where
    u2: "union_interval env0 exampleStore (intervalD\<lparr>endSide := After\<rparr>) intervalF = (u2, s2)"
    by (cases "union_interval env0 exampleStore (intervalD\<lparr>endSide := After\<rparr>) intervalF")
  have ev: "startLref intervalC = startLref intervalF"
    "startSide intervalC = Before" "startSide intervalF = After"
    "endLref intervalC \<noteq> endLref intervalF" "endSide intervalF = Before"
    "endLref (intervalD\<lparr>endSide := After\<rparr>) = endLref intervalF"
    "endSide (intervalD\<lparr>endSide := After\<rparr>) = After"
    "label intervalC = ''x''" "intervalType intervalC = IntervalType_SlideOnRemove"
    "minReferencePosition env0 (refs exampleStore) (startLref intervalC) (startLref intervalF) = 4"
    "maxReferencePosition env0 (refs exampleStore) (endLref intervalC) (endLref intervalF) = 7"
    "maxReferencePosition env0 (refs exampleStore) (endLref (intervalD\<lparr>endSide := After\<rparr>))
       (endLref intervalF) = 7"
    "endLref intervalC = 5"
    "uuid env0 (uuidCount exampleStore) = ''uuid-0''"
    by (simp_all add: example_defs showNat.simps)
  have first: "\<exists>u st'. union_interval env0 exampleStore intervalC intervalF = (u, st') \<and>
            startLref intervalC = startLref intervalF \<and>
            startSide intervalC = Before \<and> startSide intervalF = After \<and>
            startLref u = 4 \<and> startSide u = Before \<and> endLref u = 7 \<and> endSide u = Before \<and>
            intervalId u = ''uuid-0'' \<and> label u = ''x'' \<and>
            intervalType u = IntervalType_SlideOnRemove \<and> properties u = createMap"
    using union_interval_result [OF u1] u1 ev
    by (intro exI [of _ u1] exI [of _ s1]) simp
  have second: "\<exists>u st'. union_interval env0 exampleStore (intervalD\<lparr>endSide := After\<rparr>) intervalF =
              (u, st') \<and>
            endLref (intervalD\<lparr>endSide := After\<rparr>) = endLref intervalF \<and>
            endSide intervalF = Before \<and> endLref u = 7 \<and> endSide u = After"
    using union_interval_result [OF u2] u2 ev
    by (intro exI [of _ u2] exI [of _ s2]) simp
  show ?thesis using first second by (rule conjI)
qed









text \<open>
  Two start PRs that are distinct objects at one position (interval C starts at PR 4,
  interval D at PR 6, both at position 4): when \<open>minReferencePosition\<close> returns its second
  argument on a tie, each union starts at the other operand's PR and takes that operand's
  start side, so the start side depends on the order of the operands.
\<close>

lemma union_on_position_tie:
  "startLref (fst (union_interval env0 exampleStore intervalC intervalD)) = 6 \<and>
   startLref (fst (union_interval env0 exampleStore intervalD intervalC)) = 4 \<and>
   startSide (fst (union_interval env0 exampleStore intervalC intervalD)) = After \<and>
   startSide (fst (union_interval env0 exampleStore intervalD intervalC)) = Before"
  by (simp add: union_interval_def uuid_v4_def newSequenceIntervalClass_def example_defs Let_def)

section \<open>Reserved property keys (C9)\<close>

lemma addsNoKeys_reservedFree:
  assumes "addsNoKeys env" and "reservedFree p" and "reservedFree q"
  shows "reservedFree (addProperties env p q)"
  using assms unfolding addsNoKeys_def reservedFree_def by blast

lemma reservedFree_createMap: "reservedFree createMap"
  by (simp add: reservedFree_def createMap_def)

lemma reservedFree_stripped:
  "reservedFree (p(reservedIntervalIdKey := None, reservedRangeLabelsKey := None))"
  by (simp add: reservedFree_def)

lemma modify_properties:
  assumes "modify env st this lbl startP endP opmsg localSeq useNewSlidingBehavior = Inr (i', st')"
  shows "properties i' = properties this"
  using assms
  by (auto simp: modify_def endpointPosAndSide_def Let_def copyPropertiesAndManager_def
      split: sum.splits prod.splits)

lemma handlesNoKeys_reservedFree:
  assumes "handlesNoKeys env" and "reservedFree p" and "reservedFree q"
  shows "reservedFree (fst (handleProperties env mgr p q seq msn collab rollback))"
  using assms unfolding handlesNoKeys_def reservedFree_def by blast

lemma changeProperties_properties:
  "properties (fst (changeProperties env this props opmsg rollback)) =
     (case props of
        None \<Rightarrow> properties this
      | Some p \<Rightarrow>
          fst (handleProperties env
                 (case propertyManager this of None \<Rightarrow> newPropertiesManager | Some m \<Rightarrow> m)
                 p (properties this)
                 (if collaborating env
                  then (case opmsg of None \<Rightarrow> unassignedSequenceNumber env
                        | Some m \<Rightarrow> sequenceNumber m)
                  else universalSequenceNumber env)
                 (case opmsg of None \<Rightarrow> universalSequenceNumber env
                  | Some m \<Rightarrow> minimumSequenceNumber m)
                 (collaborating env) rollback))"
  by (simp add: changeProperties_def Let_def split: option.splits prod.splits)

text \<open>
  Claim C9, as the code has it. The reserved keys \<open>intervalId\<close> and
  \<open>referenceRangeLabels\<close> get into an interval's properties only when a caller supplies
  them to the constructor or to \<open>changeProperties\<close>: both hand the props on as given
  (to \<open>addProperties\<close> and to the property manager), so props without the reserved keys
  leave the properties without them. \<open>createSequenceInterval\<close> sets both keys to
  \<open>undefined\<close> in the props it passes to the constructor, so the interval it returns has
  neither, whatever props it was given. \<open>clone\<close>, \<open>union\<close>, \<open>modify\<close> and
  \<open>ackPropertiesChange\<close> keep the reserved keys out. The module itself writes the
  reserved keys in \<open>serializeDelta\<close> only, into the serialized properties. (Here
  \<open>addProperties\<close> and the property manager are assumed to invent no key.)
\<close>

theorem reserved_keys_only_on_serialization:
  "addsNoKeys env \<Longrightarrow> handlesNoKeys env \<Longrightarrow>
   (createSequenceInterval env st lbl iid startP endP itype opmsg fromSnapshot
      useNewSlidingBehavior props rollback = Inr (i, st') \<longrightarrow> reservedFree (properties i)) \<and>
   properties (newSequenceIntervalClass env iid2 lbl2 startR endR itype2 ctorProps sSide eSide) =
     (case ctorProps of None \<Rightarrow> createMap | Some p \<Rightarrow> addProperties env createMap p) \<and>
   ((case ctorProps of None \<Rightarrow> True | Some p \<Rightarrow> reservedFree p) \<longrightarrow>
      reservedFree
        (properties (newSequenceIntervalClass env iid2 lbl2 startR endR itype2 ctorProps sSide eSide))) \<and>
   (reservedFree (properties a) \<longrightarrow>
      reservedFree (properties (clone env a)) \<and>
      reservedFree (properties (fst (union_interval env st a b))) \<and>
      (modify env st a lbl3 startP3 endP3 opmsg3 localSeq3 useNew3 = Inr (a', st3) \<longrightarrow>
         reservedFree (properties a')) \<and>
      reservedFree (properties (ackPropertiesChange env a ackProps ackOp)) \<and>
      ((case changeProps of None \<Rightarrow> True | Some p \<Rightarrow> reservedFree p) \<longrightarrow>
         reservedFree (properties (fst (changeProperties env a changeProps opmsg4 rollback4))))) \<and>
   (\<exists>p. s_properties (serializeDelta env st a deltaProps includeEndpoints) = Some p \<and>
        p reservedIntervalIdKey = Some (JStr (intervalId a)) \<and>
        p reservedRangeLabelsKey = Some (JArr [JStr (label a)]))"
proof -
  assume nk: "addsNoKeys env" and hk: "handlesNoKeys env"
  have 1: "createSequenceInterval env st lbl iid startP endP itype opmsg fromSnapshot
      useNewSlidingBehavior props rollback = Inr (i, st') \<longrightarrow> reservedFree (properties i)"
  proof
    assume eq: "createSequenceInterval env st lbl iid startP endP itype opmsg fromSnapshot
      useNewSlidingBehavior props rollback = Inr (i, st')"
    have p: "properties i =
           (case props of None \<Rightarrow> createMap
            | Some p \<Rightarrow> addProperties env createMap
                         (p(reservedIntervalIdKey := None, reservedRangeLabelsKey := None)))"
      using createSequenceInterval_Inr [OF eq] by blast
    show "reservedFree (properties i)"
      unfolding p
      by (cases props)
        (simp_all add: reservedFree_createMap
          addsNoKeys_reservedFree [OF nk reservedFree_createMap reservedFree_stripped])
  qed
  have 2: "properties (newSequenceIntervalClass env iid2 lbl2 startR endR itype2 ctorProps sSide eSide) =
     (case ctorProps of None \<Rightarrow> createMap | Some p \<Rightarrow> addProperties env createMap p)"
    by (simp add: newSequenceIntervalClass_def)
  have 3: "(case ctorProps of None \<Rightarrow> True | Some p \<Rightarrow> reservedFree p) \<longrightarrow>
      reservedFree
        (properties (newSequenceIntervalClass env iid2 lbl2 startR endR itype2 ctorProps sSide eSide))"
    unfolding 2
    by (cases ctorProps)
      (simp_all add: reservedFree_createMap addsNoKeys_reservedFree [OF nk reservedFree_createMap])
  have 4: "reservedFree (properties a) \<longrightarrow>
      reservedFree (properties (clone env a)) \<and>
      reservedFree (properties (fst (union_interval env st a b))) \<and>
      (modify env st a lbl3 startP3 endP3 opmsg3 localSeq3 useNew3 = Inr (a', st3) \<longrightarrow>
         reservedFree (properties a')) \<and>
      reservedFree (properties (ackPropertiesChange env a ackProps ackOp)) \<and>
      ((case changeProps of None \<Rightarrow> True | Some p \<Rightarrow> reservedFree p) \<longrightarrow>
         reservedFree (properties (fst (changeProperties env a changeProps opmsg4 rollback4))))"
  proof (intro impI conjI)
    assume rf: "reservedFree (properties a)"
    show "reservedFree (properties (clone env a))"
      using addsNoKeys_reservedFree [OF nk reservedFree_createMap rf]
      by (simp add: clone_def newSequenceIntervalClass_def)
    show "reservedFree (properties (fst (union_interval env st a b)))"
      by (simp add: union_interval_def uuid_v4_def newSequenceIntervalClass_def Let_def
          reservedFree_createMap)
    show "reservedFree (properties (ackPropertiesChange env a ackProps ackOp))"
      using rf by (simp add: ackPropertiesChange_def Let_def)
    {
      assume "modify env st a lbl3 startP3 endP3 opmsg3 localSeq3 useNew3 = Inr (a', st3)"
      then show "reservedFree (properties a')"
        using rf by (simp add: modify_properties)
    }
    {
      assume cp: "case changeProps of None \<Rightarrow> True | Some p \<Rightarrow> reservedFree p"
      show "reservedFree (properties (fst (changeProperties env a changeProps opmsg4 rollback4)))"
      proof (cases changeProps)
        case None
        then show ?thesis using rf by (simp add: changeProperties_properties)
      next
        case (Some p)
        then have "reservedFree p" using cp by simp
        then show ?thesis
          using Some handlesNoKeys_reservedFree [OF hk _ rf]
          by (simp add: changeProperties_properties)
      qed
    }
  qed
  have 5: "\<exists>p. s_properties (serializeDelta env st a deltaProps includeEndpoints) = Some p \<and>
        p reservedIntervalIdKey = Some (JStr (intervalId a)) \<and>
        p reservedRangeLabelsKey = Some (JArr [JStr (label a)])"
    by (simp add: serializeDelta_def key_defs)
  show ?thesis using 1 2 3 4 5 by (intro conjI)
qed

text \<open>
  On the concrete client: an interval created with props that hold a reserved key has
  none; a clone of it and a change of its colour leave it so; its serialized form has both.
\<close>

theorem reserved_keys_only_on_serialization_witness:
  "addsNoKeys env0 \<and> handlesNoKeys env0 \<and>
   (\<exists>i st'. createSequenceInterval env0 store0 ''hl'' ''abc'' (Some (Interior 2 After))
               (Some (Plain (Num 9))) IntervalType_SlideOnRemove None None False
               (Some (createMap(''color'' \<mapsto> JStr ''red'', ''intervalId'' \<mapsto> JStr ''other'')))
               None = Inr (i, st') \<and>
            reservedFree (properties i) \<and>
            reservedFree (properties (clone env0 i)) \<and>
            reservedFree (createMap(''color'' \<mapsto> JStr ''blue'')) \<and>
            reservedFree
              (properties (fst (changeProperties env0 i
                 (Some (createMap(''color'' \<mapsto> JStr ''blue''))) None None))) \<and>
            (\<exists>p. s_properties (serializeDelta env0 st' i (Some (properties i)) True) = Some p \<and>
                 p reservedIntervalIdKey = Some (JStr ''abc'') \<and>
                 p reservedRangeLabelsKey = Some (JArr [JStr ''hl''])))"
proof -
  have nk: "addsNoKeys env0"
    by (simp add: addsNoKeys_def env0_def addProperties0_def)
  have hk: "handlesNoKeys env0"
    by (simp add: handlesNoKeys_def env0_def addProperties0_def)
  have "\<exists>i st'. createSequenceInterval env0 store0 ''hl'' ''abc'' (Some (Interior 2 After))
               (Some (Plain (Num 9))) IntervalType_SlideOnRemove None None False
               (Some (createMap(''color'' \<mapsto> JStr ''red'', ''intervalId'' \<mapsto> JStr ''other'')))
               None = Inr (i, st') \<and> intervalId i = ''abc'' \<and> label i = ''hl''"
    by (simp add: factory_defs env0_def store0_def Let_def)
  then obtain i st' where
    c: "createSequenceInterval env0 store0 ''hl'' ''abc'' (Some (Interior 2 After))
               (Some (Plain (Num 9))) IntervalType_SlideOnRemove None None False
               (Some (createMap(''color'' \<mapsto> JStr ''red'', ''intervalId'' \<mapsto> JStr ''other'')))
               None = Inr (i, st')"
    and f: "intervalId i = ''abc''" "label i = ''hl''"
    by blast
  have blue: "reservedFree (createMap(''color'' \<mapsto> JStr ''blue''))"
    by (simp add: reservedFree_def createMap_def key_defs)
  note t = reserved_keys_only_on_serialization [OF nk hk,
      where st = store0 and lbl = "''hl''" and iid = "''abc''"
        and startP = "Some (Interior 2 After)" and endP = "Some (Plain (Num 9))"
        and itype = IntervalType_SlideOnRemove and opmsg = None and fromSnapshot = None
        and useNewSlidingBehavior = False
        and props = "Some (createMap(''color'' \<mapsto> JStr ''red'', ''intervalId'' \<mapsto> JStr ''other''))"
        and rollback = None and i = i and st' = st' and a = i
        and changeProps = "Some (createMap(''color'' \<mapsto> JStr ''blue''))"
        and ?opmsg4.0 = None and ?rollback4.0 = None]
  have rf: "reservedFree (properties i)"
    using t [THEN conjunct1] c by simp
  note t4 = t [THEN conjunct2, THEN conjunct2, THEN conjunct2, THEN conjunct1, THEN mp, OF rf]
  have cl: "reservedFree (properties (clone env0 i))"
    using t4 by (rule conjunct1)
  have ch: "reservedFree
              (properties (fst (changeProperties env0 i
                 (Some (createMap(''color'' \<mapsto> JStr ''blue''))) None None)))"
    using t4 [THEN conjunct2, THEN conjunct2, THEN conjunct2, THEN conjunct2] blue by simp
  have se: "\<exists>p. s_properties (serializeDelta env0 st' i (Some (properties i)) True) = Some p \<and>
                 p reservedIntervalIdKey = Some (JStr ''abc'') \<and>
                 p reservedRangeLabelsKey = Some (JArr [JStr ''hl''])"
    using reserved_keys_only_on_serialization [OF nk hk,
        where st = st' and a = i and deltaProps = "Some (properties i)"
          and includeEndpoints = True,
        THEN conjunct2, THEN conjunct2, THEN conjunct2, THEN conjunct2] f by simp
  have body: "createSequenceInterval env0 store0 ''hl'' ''abc'' (Some (Interior 2 After))
               (Some (Plain (Num 9))) IntervalType_SlideOnRemove None None False
               (Some (createMap(''color'' \<mapsto> JStr ''red'', ''intervalId'' \<mapsto> JStr ''other'')))
               None = Inr (i, st') \<and>
            reservedFree (properties i) \<and>
            reservedFree (properties (clone env0 i)) \<and>
            reservedFree (createMap(''color'' \<mapsto> JStr ''blue'')) \<and>
            reservedFree
              (properties (fst (changeProperties env0 i
                 (Some (createMap(''color'' \<mapsto> JStr ''blue''))) None None))) \<and>
            (\<exists>p. s_properties (serializeDelta env0 st' i (Some (properties i)) True) = Some p \<and>
                 p reservedIntervalIdKey = Some (JStr ''abc'') \<and>
                 p reservedRangeLabelsKey = Some (JArr [JStr ''hl'']))"
    using c rf cl blue ch se by (intro conjI)
  show ?thesis
    using nk hk body by blast
qed

text \<open>
  The claim as stated fails for the constructor and for \<open>changeProperties\<close>: props that
  hold a reserved key are handed on as they are, and on the concrete client the key ends
  up in the properties of the interval, whose properties were free of it before.
\<close>

theorem caller_props_keep_reserved_key:
  "properties
     (newSequenceIntervalClass env0 ''A'' ''x'' 0 1 IntervalType_SlideOnRemove
        (Some (createMap(''intervalId'' \<mapsto> JStr ''other''))) None None)
     ''intervalId'' = Some (JStr ''other'') \<and>
   reservedFree (properties intervalA) \<and>
   properties
     (fst (changeProperties env0 intervalA
        (Some (createMap(''intervalId'' \<mapsto> JStr ''other''))) None None))
     ''intervalId'' = Some (JStr ''other'')"
  by (simp add: newSequenceIntervalClass_def changeProperties_def newPropertiesManager_def
      reservedFree_def key_defs example_defs addProperties0_def createMap_def Let_def)

end
